theory Spec2Isabelle
  imports Complex_Main
begin

section \<open>Python values, exceptions and dictionaries\<close>

text \<open>
  The service is a Flask application (\<^verbatim>\<open>src/server.py\<close>) in front of an Elasticsearch
  index and the \<^verbatim>\<open>image_match\<close> library. Exceptions are values of \<open>py_error\<close>; a
  computation that may raise returns \<open>py_error + 'a\<close>, with \<open>Inl\<close> the exception.
  Python floats (distances, scores, the cutoff) are modelled as \<open>real\<close>: the comparisons
  and the formula \<open>(1 - dist) * 100\<close> are read as the operations they denote, rounding
  is not modelled.
\<close>

datatype py_error =
    KeyError string             \<comment> \<open>a dictionary key that is missing\<close>
  | BadRequestKeyError string   \<comment> \<open>werkzeug: a missing form field or file (HTTP 400)\<close>
  | ValueError                  \<comment> \<open>\<^verbatim>\<open>int()\<close> of a non-numeral, an inhomogeneous \<^verbatim>\<open>np.array\<close>\<close>
  | IndexError                  \<comment> \<open>\<^verbatim>\<open>dists[i]\<close> out of range\<close>
  | TransportError nat          \<comment> \<open>elasticsearch client: an HTTP status that is not ignored\<close>
  | LibraryError string         \<comment> \<open>anything else raised inside an external library\<close>

text \<open>
  The values a record dictionary of \<^verbatim>\<open>image_match\<close> holds: the path (a string), the
  signature (a list of integers), the word slots (integers) and the metadata (opaque).
\<close>

datatype 'm pyval = PStr string | PInt int | PInts "int list" | PMeta 'm

text \<open>
  A \<^verbatim>\<open>dict\<close> with string keys is an association list in insertion order (the order in
  which Python iterates it); its keys are distinct.
\<close>

type_synonym 'v dict = "(string \<times> 'v) list"

definition dict_contains :: "string \<Rightarrow> 'v dict \<Rightarrow> bool" where
  "dict_contains k d = (map_of d k \<noteq> None)"

definition dict_remove :: "string \<Rightarrow> 'v dict \<Rightarrow> 'v dict" where
  "dict_remove k d = filter (\<lambda>kv. fst kv \<noteq> k) d"

definition dict_pop :: "string \<Rightarrow> 'v dict \<Rightarrow> py_error + ('v \<times> 'v dict)" where
  "dict_pop k d =
     (case map_of d k of
        None \<Rightarrow> Inl (KeyError k)
      | Some v \<Rightarrow> Inr (v, dict_remove k d))"

text \<open>
  An iterable as a caller sees it. \<open>PyList\<close> is a concrete list. \<open>PyFilter p xs\<close> is the
  object the builtin \<^verbatim>\<open>filter(p, xs)\<close> returns in Python 3: a lazy iterator over the
  elements of \<open>xs\<close> not yet visited. \<open>consume\<close> is one full traversal (\<^verbatim>\<open>list(it)\<close>,
  \<^verbatim>\<open>result.extend(it)\<close>): it gives the elements produced and the iterable afterwards.
\<close>

datatype 'a py_iterable = PyList "'a list" | PyFilter "'a \<Rightarrow> bool" "'a list"

fun consume :: "'a py_iterable \<Rightarrow> 'a list \<times> 'a py_iterable" where
  "consume (PyList xs) = (xs, PyList xs)"
| "consume (PyFilter p xs) = (filter p xs, PyFilter p [])"

definition yielded :: "'a py_iterable \<Rightarrow> 'a list" where
  "yielded it = fst (consume it)"

fun is_materialized :: "'a py_iterable \<Rightarrow> bool" where
  "is_materialized (PyList xs) = True"
| "is_materialized (PyFilter p xs) = False"


section \<open>The search engine's documents and queries\<close>

text \<open>
  A hit of \<^verbatim>\<open>es.search(...)['hits']['hits']\<close>: \<^verbatim>\<open>_id\<close>, \<^verbatim>\<open>_score\<close> and \<^verbatim>\<open>_source\<close>. Every
  field of \<^verbatim>\<open>_source\<close> may be missing (source filtering removes fields), so each is an
  option; a key that is present holds a value.
\<close>

record 'm source =
  src_signature :: "int list option"
  src_metadata :: "'m option"
  src_url :: "string option"
  src_path :: "string option"

record 'm hit =
  hit_id :: string
  hit_score :: real
  hit_source :: "'m source"

text \<open>One clause \<^verbatim>\<open>{'term': {word: value}}\<close> of a \<^verbatim>\<open>bool\<close>/\<^verbatim>\<open>should\<close> query.\<close>

datatype 'm clause = Term string "'m pyval"

text \<open>
  The arguments of the candidate query: \<^verbatim>\<open>index\<close>, the \<^verbatim>\<open>should\<close> list of the body, the
  \<^verbatim>\<open>_source.excludes\<close> patterns of the body, \<^verbatim>\<open>size\<close> and \<^verbatim>\<open>timeout\<close>.
\<close>

record 'm es_query =
  q_index :: string
  q_should :: "'m clause list"
  q_source_excludes :: "string list"
  q_size :: int
  q_timeout :: string

text \<open>The attributes of the \<^verbatim>\<open>SignatureES\<close> object that \<^verbatim>\<open>search_single_record\<close> reads.\<close>

record signature_es =
  ses_index :: string
  ses_size :: int
  ses_timeout :: string
  distance_cutoff :: real

text \<open>
  A formatted result row (\<^verbatim>\<open>id\<close>, \<^verbatim>\<open>score\<close>, \<^verbatim>\<open>metadata\<close>, \<^verbatim>\<open>path\<close>), and the row once
  \<^verbatim>\<open>row['dist']\<close> has been set.
\<close>

record 'm formatted =
  row_id :: string
  row_score :: real
  row_metadata :: "'m option"
  row_path :: "string option"

record 'm match = "'m formatted" +
  row_dist :: real

definition set_dist :: "'m formatted \<Rightarrow> real \<Rightarrow> 'm match" where
  "set_dist row d =
     \<lparr>row_id = row_id row, row_score = row_score row, row_metadata = row_metadata row,
      row_path = row_path row, row_dist = d\<rparr>"

text \<open>The calls to external collaborators, in the order they are made.\<close>

datatype 'm call =
    EsSearch "'m es_query"                          \<comment> \<open>\<^verbatim>\<open>self.es.search(index, body, size, timeout)\<close>\<close>
  | NormalizedDistance "int list list" "'m pyval"   \<comment> \<open>\<^verbatim>\<open>normalized_distance(sigs, np.array(signature))\<close>\<close>
  | EsSearchPath string                             \<comment> \<open>\<^verbatim>\<open>es.search(index, _source='_id', q='path:' + json.dumps(path))\<close>\<close>
  | EsScan int int                                  \<comment> \<open>\<^verbatim>\<open>es.search(index, from_=offset, size=limit, _source='path')\<close>\<close>
  | EsDelete string "nat list"                      \<comment> \<open>\<^verbatim>\<open>es.delete(index, doc_type, id, ignore)\<close>\<close>
  | AddImage string string bool "'m option"         \<comment> \<open>\<^verbatim>\<open>ses.add_image(path, img, bytestream, metadata)\<close>\<close>
  | SearchImage string bool bool                    \<comment> \<open>\<^verbatim>\<open>ses.search_image(path, all_orientations, bytestream)\<close>\<close>
  | GenerateSignature string bool                   \<comment> \<open>\<^verbatim>\<open>gis.generate_signature(img, bytestream)\<close>\<close>
  | GisNormalizedDistance "int list" "int list"     \<comment> \<open>\<^verbatim>\<open>gis.normalized_distance(sig1, sig2)\<close>\<close>
  | FileRead string                                 \<comment> \<open>\<^verbatim>\<open>request.files[field].read()\<close>\<close>


section \<open>\<^verbatim>\<open>FixSignatureES.search_single_record\<close>\<close>

text \<open>\<^verbatim>\<open>[x['_source']['signature'] for x in res]\<close>: a hit without the key raises.\<close>

fun source_signatures :: "'m hit list \<Rightarrow> py_error + int list list" where
  "source_signatures [] = Inr []"
| "source_signatures (x # xs) =
     (case src_signature (hit_source x) of
        None \<Rightarrow> Inl (KeyError ''signature'')
      | Some s \<Rightarrow>
          (case source_signatures xs of
             Inl e \<Rightarrow> Inl e
           | Inr ss \<Rightarrow> Inr (s # ss)))"

text \<open>
  \<^verbatim>\<open>np.array(rows).size\<close>: the number of elements of the array built from a list of
  integer lists. Rows of different lengths make \<^verbatim>\<open>np.array\<close> raise (numpy 1.24 and later).
\<close>

definition np_size :: "int list list \<Rightarrow> py_error + nat" where
  "np_size rows =
     (case rows of
        [] \<Rightarrow> Inr 0
      | r # rs \<Rightarrow>
          if list_all (\<lambda>t. length t = length r) rs then Inr (length rows * length r)
          else Inl ValueError)"

text \<open>
  One formatted row per hit; \<^verbatim>\<open>x['_source'].get('url', x['_source'].get('path'))\<close> is the
  url when the key is there, the path otherwise, \<^verbatim>\<open>None\<close> when both are missing.
\<close>

definition format_hit :: "'m hit \<Rightarrow> 'm formatted" where
  "format_hit x =
     \<lparr>row_id = hit_id x,
      row_score = hit_score x,
      row_metadata = src_metadata (hit_source x),
      row_path = (case src_url (hit_source x) of
                    Some u \<Rightarrow> Some u
                  | None \<Rightarrow> src_path (hit_source x))\<rparr>"

text \<open>
  \<^verbatim>\<open>for i, row in enumerate(formatted_res): row['dist'] = dists[i]\<close>: the i-th row gets the
  i-th distance; a missing distance raises \<^verbatim>\<open>IndexError\<close>.
\<close>

fun set_dists :: "'m formatted list \<Rightarrow> real list \<Rightarrow> py_error + 'm match list" where
  "set_dists [] dists = Inr []"
| "set_dists (row # rows) [] = Inl IndexError"
| "set_dists (row # rows) (d # dists) =
     (case set_dists rows dists of
        Inl e \<Rightarrow> Inl e
      | Inr rows' \<Rightarrow> Inr (set_dist row d # rows'))"

text \<open>
  The method itself. Its two collaborators are parameters: \<open>es_search\<close> is
  \<^verbatim>\<open>self.es.search(...)['hits']['hits']\<close> and \<open>normalized_distance\<close> is the batch
  distance of \<^verbatim>\<open>image_match\<close>. The result is the list of calls made and what the method
  returns or raises.
\<close>

definition search_single_record ::
  "signature_es \<Rightarrow> ('m es_query \<Rightarrow> py_error + 'm hit list) \<Rightarrow>
   (int list list \<Rightarrow> 'm pyval \<Rightarrow> py_error + real list) \<Rightarrow>
   'm pyval dict \<Rightarrow> 'm call list \<times> (py_error + 'm match py_iterable)" where
  "search_single_record self es_search normalized_distance rec =
     (case dict_pop ''path'' rec of
        Inl e \<Rightarrow> ([], Inl e)
      | Inr (path, rec1) \<Rightarrow>
     (case dict_pop ''signature'' rec1 of
        Inl e \<Rightarrow> ([], Inl e)
      | Inr (signature, rec2) \<Rightarrow>
     (let rec3 = (if dict_contains ''metadata'' rec2 then dict_remove ''metadata'' rec2 else rec2);
          should = map (\<lambda>(word, v). Term word v) rec3;
          q = \<lparr>q_index = ses_index self,
               q_should = should,
               q_source_excludes = [''simple_word_*''],
               q_size = ses_size self,
               q_timeout = ses_timeout self\<rparr>
      in
     (case es_search q of
        Inl e \<Rightarrow> ([EsSearch q], Inl e)
      | Inr res \<Rightarrow>
     (case source_signatures res of
        Inl e \<Rightarrow> ([EsSearch q], Inl e)
      | Inr sigs \<Rightarrow>
     (case np_size sigs of
        Inl e \<Rightarrow> ([EsSearch q], Inl e)
      | Inr n \<Rightarrow>
     (if n = 0 then ([EsSearch q], Inr (PyList []))
      else
     (case normalized_distance sigs signature of
        Inl e \<Rightarrow> ([EsSearch q, NormalizedDistance sigs signature], Inl e)
      | Inr dists \<Rightarrow>
     (case set_dists (map format_hit res) dists of
        Inl e \<Rightarrow> ([EsSearch q, NormalizedDistance sigs signature], Inl e)
      | Inr formatted_res \<Rightarrow>
          ([EsSearch q, NormalizedDistance sigs signature],
           Inr (PyFilter (\<lambda>y. row_dist y < distance_cutoff self) formatted_res)))))))))))"


section \<open>Requests, responses and effects of the handlers\<close>

text \<open>
  What a handler reads of Flask's \<^verbatim>\<open>request\<close>: the method, the query string
  (\<^verbatim>\<open>request.args\<close>), the form fields (\<^verbatim>\<open>request.form\<close>) and the uploaded files
  (\<^verbatim>\<open>request.files\<close>, each by the bytes its \<^verbatim>\<open>read()\<close> returns).
\<close>

datatype http_method = GET | POST | DELETE

record request =
  req_method :: http_method
  req_args :: "string \<rightharpoonup> string"
  req_form :: "string \<rightharpoonup> string"
  req_files :: "string \<rightharpoonup> string"

text \<open>
  The dictionary a handler passes to \<^verbatim>\<open>json.dumps\<close>. An element of \<^verbatim>\<open>result\<close> is a match
  (\<^verbatim>\<open>score\<close>, \<^verbatim>\<open>filepath\<close>, \<^verbatim>\<open>metadata\<close>), a bare score or a path.
\<close>

datatype 'm item = Match real "string option" "'m option" | Score real | PathItem string

record 'm response =
  resp_status :: string
  resp_error :: "string list"
  resp_method :: string
  resp_result :: "'m item list"

definition ok_response :: "string \<Rightarrow> 'm item list \<Rightarrow> 'm response" where
  "ok_response name items =
     \<lparr>resp_status = ''ok'', resp_error = [], resp_method = name, resp_result = items\<rparr>"

text \<open>
  The module's globals, as parameters: the Elasticsearch client \<^verbatim>\<open>es\<close> on the index
  \<^verbatim>\<open>es_index\<close>, whose state has type \<open>'s\<close>; the \<^verbatim>\<open>image_match\<close> objects \<^verbatim>\<open>ses\<close> and
  \<^verbatim>\<open>gis\<close>; \<^verbatim>\<open>json.loads\<close>; and the environment variable \<^verbatim>\<open>ALL_ORIENTATIONS\<close>.
  \<open>es_delete\<close> gives the HTTP status of the delete request and the index afterwards.
\<close>

record ('s, 'm) backend =
  es_search_path :: "'s \<Rightarrow> string \<Rightarrow> py_error + 'm hit list"
  es_scan :: "'s \<Rightarrow> int \<Rightarrow> int \<Rightarrow> py_error + 'm hit list"
  es_delete :: "'s \<Rightarrow> string \<Rightarrow> nat \<times> 's"
  ses_add_image :: "'s \<Rightarrow> string \<Rightarrow> string \<Rightarrow> bool \<Rightarrow> 'm option \<Rightarrow> py_error + 's"
  ses_search_image :: "'s \<Rightarrow> string \<Rightarrow> bool \<Rightarrow> bool \<Rightarrow> py_error + 'm match list"
  gis_generate_signature :: "string \<Rightarrow> bool \<Rightarrow> py_error + int list"
  gis_normalized_distance :: "int list \<Rightarrow> int list \<Rightarrow> py_error + real"
  json_loads :: "string \<Rightarrow> py_error + 'm"
  env_all_orientations :: string

text \<open>
  A handler step: from the index state to what it returns or raises, the index state
  afterwards and the external calls it made, in order.
\<close>

type_synonym ('a, 's, 'm) act = "'s \<Rightarrow> (py_error + 'a) \<times> 's \<times> 'm call list"

definition return_act :: "'a \<Rightarrow> ('a, 's, 'm) act" where
  "return_act a s = (Inr a, s, [])"

definition bind_act :: "('a, 's, 'm) act \<Rightarrow> ('a \<Rightarrow> ('b, 's, 'm) act) \<Rightarrow> ('b, 's, 'm) act" where
  "bind_act m f s =
     (case m s of
        (Inl e, s1, c1) \<Rightarrow> (Inl e, s1, c1)
      | (Inr a, s1, c1) \<Rightarrow> (case f a s1 of (r, s2, c2) \<Rightarrow> (r, s2, c1 @ c2)))"

definition external :: "'m call \<Rightarrow> py_error + 'a \<Rightarrow> ('a, 's, 'm) act" where
  "external c r s = (r, s, [c])"


section \<open>Helpers of \<^verbatim>\<open>server.py\<close>\<close>

definition ids_with_path :: "('s, 'm) backend \<Rightarrow> string \<Rightarrow> (string list, 's, 'm) act" where
  "ids_with_path be path s =
     (case es_search_path be s path of
        Inl e \<Rightarrow> (Inl e, s, [EsSearchPath path])
      | Inr matches \<Rightarrow> (Inr (map hit_id matches), s, [EsSearchPath path]))"

text \<open>\<^verbatim>\<open>[h['_source']['path'] for h in hits]\<close>: a hit without the key raises.\<close>

fun source_paths :: "'m hit list \<Rightarrow> py_error + string list" where
  "source_paths [] = Inr []"
| "source_paths (h # hs) =
     (case src_path (hit_source h) of
        None \<Rightarrow> Inl (KeyError ''path'')
      | Some p \<Rightarrow>
          (case source_paths hs of
             Inl e \<Rightarrow> Inl e
           | Inr ps \<Rightarrow> Inr (p # ps)))"

definition paths_at_location :: "('s, 'm) backend \<Rightarrow> int \<Rightarrow> int \<Rightarrow> (string list, 's, 'm) act" where
  "paths_at_location be offset limit s =
     (case es_scan be s offset limit of
        Inl e \<Rightarrow> (Inl e, s, [EsScan offset limit])
      | Inr hits \<Rightarrow> (source_paths hits, s, [EsScan offset limit]))"

text \<open>
  \<^verbatim>\<open>es.delete(..., id=i, ignore=codes)\<close>: the client raises for a status outside 2xx
  unless the status is one of the ignored codes.
\<close>

definition es_delete_ignoring :: "('s, 'm) backend \<Rightarrow> string \<Rightarrow> nat list \<Rightarrow> (unit, 's, 'm) act" where
  "es_delete_ignoring be i ignore s =
     (case es_delete be s i of
        (status, s') \<Rightarrow>
          if (200 \<le> status \<and> status < 300) \<or> status \<in> set ignore
          then (Inr (), s', [EsDelete i ignore])
          else (Inl (TransportError status), s', [EsDelete i ignore]))"

fun delete_ids :: "('s, 'm) backend \<Rightarrow> string list \<Rightarrow> (unit, 's, 'm) act" where
  "delete_ids be [] s = (Inr (), s, [])"
| "delete_ids be (i # ids) s =
     (case es_delete_ignoring be i [404] s of
        (Inl e, s1, c1) \<Rightarrow> (Inl e, s1, c1)
      | (Inr u, s1, c1) \<Rightarrow> (case delete_ids be ids s1 of (r, s2, c2) \<Rightarrow> (r, s2, c1 @ c2)))"

definition dist_to_percent :: "real \<Rightarrow> real" where
  "dist_to_percent d = (1 - d) * 100"

definition get_image :: "request \<Rightarrow> string \<Rightarrow> string \<Rightarrow> (string \<times> bool, 's, 'm) act" where
  "get_image request url_field file_field s =
     (case req_form request url_field of
        Some url \<Rightarrow> (Inr (url, False), s, [])
      | None \<Rightarrow>
          (case req_files request file_field of
             None \<Rightarrow> (Inl (BadRequestKeyError file_field), s, [])
           | Some bytes \<Rightarrow> (Inr (bytes, True), s, [FileRead file_field])))"


section \<open>The builtin \<^verbatim>\<open>int\<close> on request parameters\<close>

text \<open>
  \<^verbatim>\<open>int(text)\<close> for an ASCII string (Python 3): surrounding whitespace is dropped (tab,
  line feed, vertical tab, form feed, carriage return and space, nothing else), then an
  optional sign, then decimal digits, where single underscores may stand between
  digits; anything else raises \<^verbatim>\<open>ValueError\<close>, and so does a numeral of more than 4300
  digits (the interpreter's default limit for the conversion of a string).
\<close>

definition py_isspace :: "char \<Rightarrow> bool" where
  "py_isspace c = (let n = (of_char c :: nat) in (9 \<le> n \<and> n \<le> 13) \<or> n = 32)"

definition max_str_digits :: nat where
  "max_str_digits = 4300"

definition is_digit :: "char \<Rightarrow> bool" where
  "is_digit c = (let n = (of_char c :: nat) in 48 \<le> n \<and> n \<le> 57)"

definition digit_value :: "char \<Rightarrow> int" where
  "digit_value c = int (of_char c) - 48"

fun digits_value :: "int \<Rightarrow> string \<Rightarrow> int option" where
  "digits_value acc [] = Some acc"
| "digits_value acc [c] = (if is_digit c then Some (acc * 10 + digit_value c) else None)"
| "digits_value acc (c # d # cs) =
     (if is_digit c then digits_value (acc * 10 + digit_value c) (d # cs)
      else if c = CHR ''_'' \<and> is_digit d then digits_value (acc * 10 + digit_value d) cs
      else None)"

definition decimal_value :: "string \<Rightarrow> int option" where
  "decimal_value text =
     (case text of
        [] \<Rightarrow> None
      | c # cs \<Rightarrow> if is_digit c then digits_value (digit_value c) cs else None)"

definition strip :: "string \<Rightarrow> string" where
  "strip text = rev (dropWhile py_isspace (rev (dropWhile py_isspace text)))"

definition py_int :: "string \<Rightarrow> py_error + int" where
  "py_int text =
     (let t = strip text;
          (negative, body) =
            (case t of
               [] \<Rightarrow> (False, t)
             | c # cs \<Rightarrow>
                 if c = CHR ''-'' then (True, cs)
                 else if c = CHR ''+'' then (False, cs)
                 else (False, t))
      in if max_str_digits < length (filter is_digit body) then Inl ValueError
         else
           (case decimal_value body of
              None \<Rightarrow> Inl ValueError
            | Some n \<Rightarrow> Inr (if negative then - n else n)))"

text \<open>\<^verbatim>\<open>int(params.get(key, default))\<close> with an integer default.\<close>

definition int_param :: "(string \<rightharpoonup> string) \<Rightarrow> string \<Rightarrow> int \<Rightarrow> py_error + int" where
  "int_param params key dflt =
     (case params key of
        None \<Rightarrow> Inr dflt
      | Some text \<Rightarrow> py_int text)"


section \<open>Routes\<close>

text \<open>\<^verbatim>\<open>request.form[key]\<close>: a missing field aborts the request with a bad-request error.\<close>

definition form_field :: "request \<Rightarrow> string \<Rightarrow> (string, 's, 'm) act" where
  "form_field request key s =
     (case req_form request key of
        None \<Rightarrow> (Inl (BadRequestKeyError key), s, [])
      | Some v \<Rightarrow> (Inr v, s, []))"

text \<open>
  \<^verbatim>\<open>try: metadata = json.loads(request.form['metadata'])\<close>
  \<^verbatim>\<open>except KeyError: metadata = None\<close>.
  The error of a missing form field is a \<^verbatim>\<open>KeyError\<close>, so it is caught.
\<close>

definition load_metadata :: "('s, 'm) backend \<Rightarrow> request \<Rightarrow> ('m option, 's, 'm) act" where
  "load_metadata be request s =
     (case req_form request ''metadata'' of
        None \<Rightarrow> (Inr None, s, [])
      | Some text \<Rightarrow>
          (case json_loads be text of
             Inl (KeyError k) \<Rightarrow> (Inr None, s, [])
           | Inl e \<Rightarrow> (Inl e, s, [])
           | Inr m \<Rightarrow> (Inr (Some m), s, [])))"

definition add_image ::
  "('s, 'm) backend \<Rightarrow> string \<Rightarrow> string \<Rightarrow> bool \<Rightarrow> 'm option \<Rightarrow> (unit, 's, 'm) act" where
  "add_image be path img bs metadata s =
     (case ses_add_image be s path img bs metadata of
        Inl e \<Rightarrow> (Inl e, s, [AddImage path img bs metadata])
      | Inr s' \<Rightarrow> (Inr (), s', [AddImage path img bs metadata]))"

definition add_handler :: "('s, 'm) backend \<Rightarrow> request \<Rightarrow> ('m response, 's, 'm) act" where
  "add_handler be request =
     bind_act (form_field request ''filepath'') (\<lambda>path.
     bind_act (load_metadata be request) (\<lambda>metadata.
     bind_act (get_image request ''url'' ''image'') (\<lambda>(img, bs).
     bind_act (ids_with_path be path) (\<lambda>old_ids.
     bind_act (add_image be path img bs metadata) (\<lambda>u.
     bind_act (delete_ids be old_ids) (\<lambda>u.
     return_act (ok_response ''add'' [])))))))"

definition delete_handler :: "('s, 'm) backend \<Rightarrow> request \<Rightarrow> ('m response, 's, 'm) act" where
  "delete_handler be request =
     bind_act (form_field request ''filepath'') (\<lambda>path.
     bind_act (ids_with_path be path) (\<lambda>ids.
     bind_act (delete_ids be ids) (\<lambda>u.
     return_act (ok_response ''delete'' []))))"

definition search_image ::
  "('s, 'm) backend \<Rightarrow> string \<Rightarrow> bool \<Rightarrow> bool \<Rightarrow> ('m match list, 's, 'm) act" where
  "search_image be img ao bs s =
     external (SearchImage img ao bs) (ses_search_image be s img ao bs) s"

definition search_handler :: "('s, 'm) backend \<Rightarrow> request \<Rightarrow> ('m response, 's, 'm) act" where
  "search_handler be request =
     bind_act (get_image request ''url'' ''image'') (\<lambda>(img, bs).
     (let ao = ((case req_form request ''all_orientations'' of
                   None \<Rightarrow> env_all_orientations be
                 | Some v \<Rightarrow> v) = ''true'')
      in
     bind_act (search_image be img ao bs) (\<lambda>matches.
     return_act (ok_response ''search''
       (map (\<lambda>m. Match (dist_to_percent (row_dist m)) (row_path m) (row_metadata m)) matches)))))"

definition compare_handler :: "('s, 'm) backend \<Rightarrow> request \<Rightarrow> ('m response, 's, 'm) act" where
  "compare_handler be request =
     bind_act (get_image request ''url1'' ''image1'') (\<lambda>(img1, bs1).
     bind_act (get_image request ''url2'' ''image2'') (\<lambda>(img2, bs2).
     bind_act (external (GenerateSignature img1 bs1) (gis_generate_signature be img1 bs1)) (\<lambda>img1_sig.
     bind_act (external (GenerateSignature img2 bs2) (gis_generate_signature be img2 bs2)) (\<lambda>img2_sig.
     bind_act (external (GisNormalizedDistance img1_sig img2_sig)
                 (gis_normalized_distance be img1_sig img2_sig)) (\<lambda>d.
     (let score = dist_to_percent d
      in return_act (ok_response ''compare'' [Score score])))))))"

definition list_handler :: "('s, 'm) backend \<Rightarrow> request \<Rightarrow> ('m response, 's, 'm) act" where
  "list_handler be request =
     (let params = (if req_method request = GET then req_args request else req_form request)
      in
     bind_act (\<lambda>s. (int_param params ''offset'' 0, s, [])) (\<lambda>offset_int.
     bind_act (\<lambda>s. (int_param params ''limit'' 20, s, [])) (\<lambda>limit_int.
     (let offset = max offset_int 0; limit = max limit_int 0
      in
     bind_act (paths_at_location be offset limit) (\<lambda>paths.
     return_act (ok_response ''list'' (map PathItem paths)))))))"


section \<open>A reference index\<close>

text \<open>
  Modelled from the spec: the search engine and \<^verbatim>\<open>SignatureES.add_image\<close> are external
  libraries, not code of this repository. The reference index follows the contract the
  specification gives them (Record Store Adapter): \<open>insert\<close> adds one record under a new,
  engine-assigned identifier; \<open>deleteById\<close> removes the record and answers 404 for an
  identifier that is absent; \<open>findIdsByPath\<close> is an exact-match lookup on the path field;
  \<open>listPaths\<close> is a paginated scan. The index is the list of its documents by identifier.
  A search answers one page of hits: as many as the request's \<^verbatim>\<open>size\<close>, and
  \<open>default_size\<close> when the request names no size, as the path lookup of
  \<^verbatim>\<open>ids_with_path\<close> does.
\<close>

type_synonym 'm index = "(string \<times> 'm source) list"

text \<open>Modelled from the spec: an identifier that no document of the index has.\<close>

definition fresh_id :: "'m index \<Rightarrow> string" where
  "fresh_id idx = replicate (Suc (fold (\<lambda>doc n. max (length (fst doc)) n) idx 0)) CHR ''x''"

text \<open>
  The engine's default page, not code of this repository: Elasticsearch answers a
  search that names no size with its first 10 hits.
\<close>

definition default_size :: nat where
  "default_size = 10"

text \<open>
  Modelled from the spec: \<open>findIdsByPath\<close> as the code requests it, with no size: the
  first page of the records whose path is the given one. The hits carry no source
  field.
\<close>

definition ref_search_path :: "'m index \<Rightarrow> string \<Rightarrow> py_error + 'm hit list" where
  "ref_search_path idx path =
     Inr (map (\<lambda>doc. \<lparr>hit_id = fst doc, hit_score = 1,
                       hit_source = \<lparr>src_signature = None, src_metadata = None,
                                     src_url = None, src_path = None\<rparr>\<rparr>)
            (take default_size (filter (\<lambda>doc. src_path (snd doc) = Some path) idx)))"

text \<open>Modelled from the spec: \<open>listPaths\<close>, the hits carry the path field only.\<close>

definition ref_scan :: "'m index \<Rightarrow> int \<Rightarrow> int \<Rightarrow> py_error + 'm hit list" where
  "ref_scan idx offset limit =
     Inr (map (\<lambda>doc. \<lparr>hit_id = fst doc, hit_score = 1,
                       hit_source = \<lparr>src_signature = None, src_metadata = None,
                                     src_url = None, src_path = src_path (snd doc)\<rparr>\<rparr>)
            (take (nat limit) (drop (nat offset) idx)))"

text \<open>Modelled from the spec: \<open>deleteById\<close> for one identifier, with the HTTP status.\<close>

definition ref_delete :: "'m index \<Rightarrow> string \<Rightarrow> nat \<times> 'm index" where
  "ref_delete idx i =
     (if i \<in> set (map fst idx) then (200, filter (\<lambda>doc. fst doc \<noteq> i) idx)
      else (404, idx))"

text \<open>
  Modelled from the spec: \<open>insert\<close>. The signature comes from the codec, whose failure
  aborts the operation before anything is written.
\<close>

definition ref_add_image ::
  "(string \<Rightarrow> bool \<Rightarrow> py_error + int list) \<Rightarrow>
   'm index \<Rightarrow> string \<Rightarrow> string \<Rightarrow> bool \<Rightarrow> 'm option \<Rightarrow> py_error + 'm index" where
  "ref_add_image generate idx path img bs metadata =
     (case generate img bs of
        Inl e \<Rightarrow> Inl e
      | Inr sg \<Rightarrow>
          Inr (idx @ [(fresh_id idx,
                       \<lparr>src_signature = Some sg, src_metadata = metadata,
                        src_url = None, src_path = Some path\<rparr>)]))"

text \<open>
  Modelled from the spec: the backend over the reference index. The codec, the scalar
  distance, the JSON parser, the library's search and the orientation default stay
  parameters.
\<close>

definition reference_backend ::
  "(string \<Rightarrow> bool \<Rightarrow> py_error + int list) \<Rightarrow> (int list \<Rightarrow> int list \<Rightarrow> py_error + real) \<Rightarrow>
   (string \<Rightarrow> py_error + 'm) \<Rightarrow>
   ('m index \<Rightarrow> string \<Rightarrow> bool \<Rightarrow> bool \<Rightarrow> py_error + 'm match list) \<Rightarrow> string \<Rightarrow>
   ('m index, 'm) backend" where
  "reference_backend generate distance loads search ao =
     \<lparr>es_search_path = ref_search_path,
      es_scan = ref_scan,
      es_delete = ref_delete,
      ses_add_image = ref_add_image generate,
      ses_search_image = search,
      gis_generate_signature = generate,
      gis_normalized_distance = distance,
      json_loads = loads,
      env_all_orientations = ao\<rparr>"

text \<open>The documents of an index that have a given path.\<close>

definition records_with_path :: "'m index \<Rightarrow> string \<Rightarrow> 'm index" where
  "records_with_path idx path = filter (\<lambda>doc. src_path (snd doc) = Some path) idx"

text \<open>The identifiers that the path lookup of \<^verbatim>\<open>ids_with_path\<close> gets from the reference index.\<close>

definition looked_up :: "'m index \<Rightarrow> string \<Rightarrow> string list" where
  "looked_up idx path = map fst (take default_size (records_with_path idx path))"


section \<open>Concrete inputs\<close>

text \<open>
  The word set of a record dictionary, in the specification's words: its entries other
  than the path, the signature and the metadata.
\<close>

definition word_slots :: "'v dict \<Rightarrow> 'v dict" where
  "word_slots d =
     filter (\<lambda>kv. fst kv \<noteq> ''path'' \<and> fst kv \<noteq> ''signature'' \<and> fst kv \<noteq> ''metadata'') d"

definition example_self :: signature_es where
  "example_self =
     \<lparr>ses_index = ''images'', ses_size = 100, ses_timeout = ''10s'', distance_cutoff = 0.45\<rparr>"

definition example_hit :: "string \<Rightarrow> int list \<Rightarrow> string hit" where
  "example_hit i sg =
     \<lparr>hit_id = i, hit_score = 1,
      hit_source = \<lparr>src_signature = Some sg, src_metadata = None, src_url = None,
                    src_path = Some (i @ ''.jpg'')\<rparr>\<rparr>"

definition example_search :: "string es_query \<Rightarrow> py_error + string hit list" where
  "example_search q = Inr [example_hit ''a'' [1, 2], example_hit ''b'' [3, 4], example_hit ''c'' [5, 6]]"

definition example_distance :: "int list list \<Rightarrow> string pyval \<Rightarrow> py_error + real list" where
  "example_distance sigs sg = Inr [0.2, 0.45, 0.7]"

definition example_rec :: "string pyval dict" where
  "example_rec =
     [(''path'', PStr ''q.jpg''), (''signature'', PInts [1, 2]), (''metadata'', PMeta ''{}''),
      (''simple_word_0'', PInt 5), (''simple_word_1'', PInt 9)]"

definition empty_search :: "string es_query \<Rightarrow> py_error + string hit list" where
  "empty_search q = Inr []"

definition failing_distance :: "int list list \<Rightarrow> string pyval \<Rightarrow> py_error + real list" where
  "failing_distance sigs sg = Inl (LibraryError ''normalized_distance'')"

definition example_query :: "string es_query" where
  "example_query =
     \<lparr>q_index = ''images'',
      q_should = [Term ''simple_word_0'' (PInt 5), Term ''simple_word_1'' (PInt 9)],
      q_source_excludes = [''simple_word_*''], q_size = 100, q_timeout = ''10s''\<rparr>"

definition example_rows :: "string match list" where
  "example_rows =
     [set_dist (format_hit (example_hit ''a'' [1, 2])) 0.2,
      set_dist (format_hit (example_hit ''b'' [3, 4])) 0.45,
      set_dist (format_hit (example_hit ''c'' [5, 6])) 0.7]"

definition example_result :: "string match py_iterable" where
  "example_result = PyFilter (\<lambda>y. row_dist y < distance_cutoff example_self) example_rows"


text \<open>A backend over the reference index, and requests with and without URL fields.\<close>

definition example_generate :: "string \<Rightarrow> bool \<Rightarrow> py_error + int list" where
  "example_generate img bs = (if img = [] then Inl (LibraryError ''decode'') else Inr [int (length img), 2])"

definition example_scalar_distance :: "int list \<Rightarrow> int list \<Rightarrow> py_error + real" where
  "example_scalar_distance a b = Inr (if a = b then 0 else 0.25)"

definition example_loads :: "string \<Rightarrow> py_error + string" where
  "example_loads text = (if text = [] then Inl ValueError else Inr text)"

definition example_search_image ::
  "string index \<Rightarrow> string \<Rightarrow> bool \<Rightarrow> bool \<Rightarrow> py_error + string match list" where
  "example_search_image idx img ao bs =
     Inr (if ao then [set_dist (format_hit (example_hit ''a'' [1, 2])) 0.2,
                      set_dist (format_hit (example_hit ''c'' [5, 6])) 0.4]
          else [set_dist (format_hit (example_hit ''a'' [1, 2])) 0.2])"

definition example_backend :: "(string index, string) backend" where
  "example_backend =
     reference_backend example_generate example_scalar_distance example_loads
       example_search_image ''false''"

definition url_request :: request where
  "url_request =
     \<lparr>req_method = POST,
      req_args = Map.empty,
      req_form = [''filepath'' \<mapsto> ''p.jpg'', ''url'' \<mapsto> ''http://h/q.jpg'',
                  ''url1'' \<mapsto> ''http://h/1.jpg'', ''url2'' \<mapsto> ''http://h/22.jpg''],
      req_files = [''image'' \<mapsto> ''bytes0'', ''image1'' \<mapsto> ''bytes1'',
                   ''image2'' \<mapsto> ''bytes2'']\<rparr>"

definition file_request :: request where
  "file_request =
     \<lparr>req_method = POST,
      req_args = Map.empty,
      req_form = [''filepath'' \<mapsto> ''p.jpg''],
      req_files = [''image'' \<mapsto> ''bytes0'', ''image1'' \<mapsto> ''bytes1'',
                   ''image2'' \<mapsto> ''bytes2'']\<rparr>"

definition all_orientations_request :: request where
  "all_orientations_request =
     url_request\<lparr>req_form := (req_form url_request)(''all_orientations'' \<mapsto> ''true'')\<rparr>"

text \<open>
  An index with two records of the path \<^verbatim>\<open>p.jpg\<close> and one of another path, and list
  requests that carry \<^verbatim>\<open>offset\<close> and \<^verbatim>\<open>limit\<close> in the place the method reads them from.
\<close>

definition example_doc :: "string \<Rightarrow> string source" where
  "example_doc path =
     \<lparr>src_signature = Some [1, 2], src_metadata = None, src_url = None, src_path = Some path\<rparr>"

definition example_index :: "string index" where
  "example_index =
     [(''a'', example_doc ''p.jpg''), (''b'', example_doc ''p.jpg''), (''c'', example_doc ''r.jpg'')]"

text \<open>An index that holds twelve records of the path \<^verbatim>\<open>p.jpg\<close>.\<close>

definition crowded_index :: "string index" where
  "crowded_index =
     [(''r01'', example_doc ''p.jpg''), (''r02'', example_doc ''p.jpg''),
      (''r03'', example_doc ''p.jpg''), (''r04'', example_doc ''p.jpg''),
      (''r05'', example_doc ''p.jpg''), (''r06'', example_doc ''p.jpg''),
      (''r07'', example_doc ''p.jpg''), (''r08'', example_doc ''p.jpg''),
      (''r09'', example_doc ''p.jpg''), (''r10'', example_doc ''p.jpg''),
      (''r11'', example_doc ''p.jpg''), (''r12'', example_doc ''p.jpg'')]"

definition list_request :: "http_method \<Rightarrow> string \<Rightarrow> string \<Rightarrow> request" where
  "list_request m offset limit =
     \<lparr>req_method = m,
      req_args = (if m = GET then [''offset'' \<mapsto> offset, ''limit'' \<mapsto> limit] else Map.empty),
      req_form = (if m = GET then Map.empty else [''offset'' \<mapsto> offset, ''limit'' \<mapsto> limit]),
      req_files = Map.empty\<rparr>"

definition plain_list_request :: request where
  "plain_list_request =
     \<lparr>req_method = GET, req_args = Map.empty, req_form = Map.empty, req_files = Map.empty\<rparr>"


section \<open>Properties of \<^verbatim>\<open>search_single_record\<close>\<close>

lemma dict_remove_absent: "\<not> dict_contains k d \<Longrightarrow> dict_remove k d = d"
  unfolding dict_contains_def dict_remove_def
  by (induction d) (auto split: if_splits)


lemma dict_remove_if:
  "(if dict_contains k d then dict_remove k d else d) = dict_remove k d"
  by (simp add: dict_remove_absent)

lemma words_of_pops:
  assumes "dict_pop ''path'' d = Inr (p, d1)" and "dict_pop ''signature'' d1 = Inr (s, d2)"
  shows "(if dict_contains ''metadata'' d2 then dict_remove ''metadata'' d2 else d2) = word_slots d"
proof -
  have d1: "d1 = dict_remove ''path'' d"
    using assms(1) by (auto simp: dict_pop_def split: option.splits)
  have d2: "d2 = dict_remove ''signature'' d1"
    using assms(2) by (auto simp: dict_pop_def split: option.splits)
  have "dict_remove ''metadata'' (dict_remove ''signature'' (dict_remove ''path'' d)) = word_slots d"
    unfolding dict_remove_def word_slots_def by (induction d) auto
  moreover have "(if dict_contains ''metadata'' d2 then dict_remove ''metadata'' d2 else d2) =
      dict_remove ''metadata'' d2"
    by (rule dict_remove_if)
  ultimately show ?thesis
    by (simp only: d1 d2)
qed



lemma example_run:
  "search_single_record example_self example_search example_distance example_rec =
     ([EsSearch example_query, NormalizedDistance [[1, 2], [3, 4], [5, 6]] (PInts [1, 2])],
      Inr example_result)"
  by (simp add: search_single_record_def example_self_def example_search_def example_distance_def
      example_rec_def dict_pop_def dict_remove_def dict_contains_def np_size_def example_hit_def
      example_query_def example_rows_def example_result_def Let_def)

lemma example_yielded:
  "yielded example_result = [set_dist (format_hit (example_hit ''a'' [1, 2])) 0.2]"
  by (simp add: yielded_def example_result_def example_rows_def set_dist_def example_self_def)




lemma map_of_dict_remove:
  "k \<noteq> k' \<Longrightarrow> map_of (dict_remove k d) k' = map_of d k'"
  unfolding dict_remove_def by (induction d) auto

lemma empty_run:
  "search_single_record example_self empty_search failing_distance example_rec =
     ([EsSearch example_query], Inr (PyList []))"
  by (simp add: search_single_record_def example_self_def empty_search_def
      example_rec_def dict_pop_def dict_remove_def dict_contains_def np_size_def
      example_query_def Let_def)

text \<open>
  Claim C2. Whenever the candidate query that \<^verbatim>\<open>search_single_record\<close> issued returns
  no hit, the method returns the empty list (a value, not an exception) and the query
  is the only external call it made: the batch distance is never invoked, whatever it
  would have answered.
\<close>

theorem search_single_record_no_candidates:
  assumes "search_single_record self es_search normalized_distance rec = (calls, out)"
    and "EsSearch q \<in> set calls"
    and "es_search q = Inr []"
  shows "out = Inr (PyList []) \<and> calls = [EsSearch q] \<and>
         (\<forall>sigs sg. NormalizedDistance sigs sg \<notin> set calls)"
  using assms unfolding search_single_record_def
  by (auto simp: Let_def np_size_def split: sum.splits prod.splits if_splits)

theorem search_single_record_no_candidates_witness:
  "search_single_record example_self empty_search failing_distance example_rec =
     ([EsSearch example_query], Inr (PyList [])) \<and>
   EsSearch example_query \<in> set [EsSearch example_query] \<and>
   empty_search example_query = Inr [] \<and>
   NormalizedDistance [] (PInts [1, 2]) \<notin> set [EsSearch example_query :: string call]"
  using search_single_record_no_candidates [OF empty_run, of example_query]
  by (simp add: empty_run empty_search_def)

text \<open>
  Claim C4. For a record dictionary that has a path and a signature, the method issues
  exactly one search. Its \<^verbatim>\<open>should\<close> list has one \<^verbatim>\<open>term\<close> clause per word slot of the
  record (slot name and slot value, in order), its \<^verbatim>\<open>size\<close> is the configured \<^verbatim>\<open>self.size\<close>,
  and its source filter excludes the fields \<^verbatim>\<open>simple_word_*\<close>.
\<close>

theorem search_single_record_query:
  assumes "dict_contains ''path'' rec" and "dict_contains ''signature'' rec"
  shows "\<exists>rest out.
           search_single_record self es_search normalized_distance rec =
             (EsSearch \<lparr>q_index = ses_index self,
                        q_should = map (\<lambda>(word, v). Term word v) (word_slots rec),
                        q_source_excludes = [''simple_word_*''],
                        q_size = ses_size self,
                        q_timeout = ses_timeout self\<rparr> # rest, out) \<and>
           (\<forall>q'. EsSearch q' \<notin> set rest)"
proof -
  from assms(1) obtain p where p: "dict_pop ''path'' rec = Inr (p, dict_remove ''path'' rec)"
    by (auto simp: dict_contains_def dict_pop_def)
  have "map_of (dict_remove ''path'' rec) ''signature'' = map_of rec ''signature''"
    by (rule map_of_dict_remove) simp
  with assms(2) obtain sg where
    sg: "dict_pop ''signature'' (dict_remove ''path'' rec) =
           Inr (sg, dict_remove ''signature'' (dict_remove ''path'' rec))"
    by (auto simp: dict_contains_def dict_pop_def)
  note ws = words_of_pops [OF p sg]
  show ?thesis
    apply (simp only: search_single_record_def p sg sum.case prod.case ws)
    apply (simp add: Let_def split: sum.splits)
    done
qed

theorem search_single_record_query_witness:
  "dict_contains ''path'' example_rec \<and> dict_contains ''signature'' example_rec \<and>
   fst (search_single_record example_self example_search example_distance example_rec) =
     [EsSearch \<lparr>q_index = ''images'',
                q_should = [Term ''simple_word_0'' (PInt 5), Term ''simple_word_1'' (PInt 9)],
                q_source_excludes = [''simple_word_*''],
                q_size = 100,
                q_timeout = ''10s''\<rparr>,
      NormalizedDistance [[1, 2], [3, 4], [5, 6]] (PInts [1, 2])]"
proof -
  have a: "dict_contains ''path'' example_rec" and b: "dict_contains ''signature'' example_rec"
    by (simp_all add: dict_contains_def example_rec_def)
  from search_single_record_query [OF a b, of example_self example_search example_distance]
  obtain rest out where
    "search_single_record example_self example_search example_distance example_rec =
       (EsSearch \<lparr>q_index = ses_index example_self,
                  q_should = map (\<lambda>(word, v). Term word v) (word_slots example_rec),
                  q_source_excludes = [''simple_word_*''],
                  q_size = ses_size example_self,
                  q_timeout = ses_timeout example_self\<rparr> # rest, out)"
    by blast
  then show ?thesis
    using a b by (simp add: example_run example_query_def)
qed

lemma example_second_traversal: "yielded (snd (consume example_result)) = []"
  by (simp add: example_result_def yielded_def)

lemma example_not_materialized: "\<not> is_materialized example_result"
  by (simp add: example_result_def)

text \<open>
  Claim C5 does not hold of the code. With three candidates, one of them below the
  cutoff, \<^verbatim>\<open>search_single_record\<close> returns the object of \<^verbatim>\<open>filter(...)\<close> as it is: the
  value is not a concrete collection, a first traversal yields the row of hit \<open>a\<close>, and
  a second traversal of the same value yields nothing. Only the early return for an
  empty candidate set hands the caller a concrete list.
\<close>

theorem search_single_record_not_materialized:
  "map_sum id is_materialized
     (snd (search_single_record example_self example_search example_distance example_rec)) =
     Inr False \<and>
   map_sum id (map row_id \<circ> yielded)
     (snd (search_single_record example_self example_search example_distance example_rec)) =
     Inr [''a''] \<and>
   map_sum id (yielded \<circ> snd \<circ> consume)
     (snd (search_single_record example_self example_search example_distance example_rec)) =
     Inr [] \<and>
   map_sum id is_materialized
     (snd (search_single_record example_self empty_search failing_distance example_rec)) =
     Inr True"
  by (simp add: example_run empty_run example_yielded example_second_traversal
      example_not_materialized set_dist_def format_hit_def example_hit_def)


section \<open>Properties of the handlers\<close>

lemma map_sum_eq_Inr: "(map_sum f g x = Inr y) = (\<exists>a. x = Inr a \<and> y = g a)"
  by (cases x) auto

lemma search_handler_eq:
  "search_handler be request s =
     (let ao = ((case req_form request ''all_orientations'' of
                   None \<Rightarrow> env_all_orientations be | Some v \<Rightarrow> v) = ''true'')
      in case get_image request ''url'' ''image'' s of
           (Inl e, s1, c1) \<Rightarrow> (Inl e, s1, c1)
         | (Inr (img, bs), s1, c1) \<Rightarrow>
             (map_sum id
                (\<lambda>matches. ok_response ''search''
                   (map (\<lambda>m. Match (dist_to_percent (row_dist m)) (row_path m) (row_metadata m))
                      matches))
                (ses_search_image be s1 img ao bs),
              s1, c1 @ [SearchImage img ao bs]))"
  unfolding search_handler_def bind_act_def search_image_def external_def return_act_def Let_def
  by (auto split: prod.splits sum.splits)

lemma compare_handler_eq:
  "compare_handler be request s =
     (case get_image request ''url1'' ''image1'' s of
        (Inl e, s1, c1) \<Rightarrow> (Inl e, s1, c1)
      | (Inr (img1, bs1), s1, c1) \<Rightarrow>
     (case get_image request ''url2'' ''image2'' s1 of
        (Inl e, s2, c2) \<Rightarrow> (Inl e, s2, c1 @ c2)
      | (Inr (img2, bs2), s2, c2) \<Rightarrow>
     (case gis_generate_signature be img1 bs1 of
        Inl e \<Rightarrow> (Inl e, s2, c1 @ c2 @ [GenerateSignature img1 bs1])
      | Inr sig1 \<Rightarrow>
     (case gis_generate_signature be img2 bs2 of
        Inl e \<Rightarrow> (Inl e, s2, c1 @ c2 @ [GenerateSignature img1 bs1, GenerateSignature img2 bs2])
      | Inr sig2 \<Rightarrow>
          (map_sum id (\<lambda>d. ok_response ''compare'' [Score (dist_to_percent d)])
             (gis_normalized_distance be sig1 sig2),
           s2,
           c1 @ c2 @ [GenerateSignature img1 bs1, GenerateSignature img2 bs2,
                      GisNormalizedDistance sig1 sig2])))))"
  unfolding compare_handler_def bind_act_def external_def return_act_def Let_def
  by (auto split: prod.splits sum.splits)

lemma load_metadata_pure:
  "load_metadata be request s = (r, s', c) \<Longrightarrow> s' = s \<and> c = []"
  unfolding load_metadata_def
  by (auto split: option.splits sum.splits py_error.splits)

lemma load_metadata_eq:
  "load_metadata be request s = (fst (load_metadata be request s), s, [])"
  by (cases "load_metadata be request s") (auto dest: load_metadata_pure)

lemma add_handler_eq:
  "add_handler be request s =
     (case req_form request ''filepath'' of
        None \<Rightarrow> (Inl (BadRequestKeyError ''filepath''), s, [])
      | Some path \<Rightarrow>
     (case fst (load_metadata be request s) of
        Inl e \<Rightarrow> (Inl e, s, [])
      | Inr metadata \<Rightarrow>
     (case get_image request ''url'' ''image'' s of
        (Inl e, s2, c2) \<Rightarrow> (Inl e, s, c2)
      | (Inr (img, bs), s2, c2) \<Rightarrow>
     (case es_search_path be s path of
        Inl e \<Rightarrow> (Inl e, s, c2 @ [EsSearchPath path])
      | Inr matches \<Rightarrow>
     (case ses_add_image be s path img bs metadata of
        Inl e \<Rightarrow> (Inl e, s, c2 @ [EsSearchPath path, AddImage path img bs metadata])
      | Inr s3 \<Rightarrow>
     (case delete_ids be (map hit_id matches) s3 of
        (r, s4, c4) \<Rightarrow>
          (map_sum id (\<lambda>u. ok_response ''add'' []) r, s4,
           c2 @ [EsSearchPath path, AddImage path img bs metadata] @ c4)))))))"
proof (cases "req_form request ''filepath''")
  case None
  then show ?thesis
    by (simp add: add_handler_def bind_act_def form_field_def)
next
  case (Some path)
  show ?thesis
    unfolding add_handler_def
    apply (simp add: bind_act_def form_field_def Some)
    apply (subst load_metadata_eq)
    apply (cases "fst (load_metadata be request s)")
     apply simp
    apply (simp add: bind_act_def ids_with_path_def add_image_def return_act_def get_image_def
        split: option.splits sum.splits prod.splits)
    done
qed

text \<open>
  Claim C6. The score a client sees is \<open>(1 - distance) * 100\<close>: that is what
  \<^verbatim>\<open>dist_to_percent\<close> computes, every element of a search response carries that value
  of its match's \<^verbatim>\<open>dist\<close>, and a compare response carries that value of the distance
  between the two signatures.
\<close>

theorem score_is_percent_of_distance:
  "dist_to_percent d = (1 - d) * 100 \<and>
   (search_handler be request s = (Inr resp, s', calls) \<longrightarrow>
      (\<exists>img ao bs matches.
         SearchImage img ao bs \<in> set calls \<and> ses_search_image be s img ao bs = Inr matches \<and>
         resp_result resp =
           map (\<lambda>m. Match ((1 - row_dist m) * 100) (row_path m) (row_metadata m)) matches)) \<and>
   (compare_handler be request s = (Inr resp, s', calls) \<longrightarrow>
      (\<exists>sig1 sig2 d'.
         GisNormalizedDistance sig1 sig2 \<in> set calls \<and>
         gis_normalized_distance be sig1 sig2 = Inr d' \<and>
         resp_result resp = [Score ((1 - d') * 100)]))"
proof (intro conjI impI)
  show "dist_to_percent d = (1 - d) * 100"
    by (simp add: dist_to_percent_def)
next
  assume "search_handler be request s = (Inr resp, s', calls)"
  then show "\<exists>img ao bs matches.
         SearchImage img ao bs \<in> set calls \<and> ses_search_image be s img ao bs = Inr matches \<and>
         resp_result resp =
           map (\<lambda>m. Match ((1 - row_dist m) * 100) (row_path m) (row_metadata m)) matches"
    unfolding search_handler_eq get_image_def Let_def
    by (fastforce simp: ok_response_def dist_to_percent_def map_sum_eq_Inr split: option.splits)
next
  assume "compare_handler be request s = (Inr resp, s', calls)"
  then show "\<exists>sig1 sig2 d'.
         GisNormalizedDistance sig1 sig2 \<in> set calls \<and>
         gis_normalized_distance be sig1 sig2 = Inr d' \<and>
         resp_result resp = [Score ((1 - d') * 100)]"
    unfolding compare_handler_eq get_image_def
    by (fastforce simp: ok_response_def dist_to_percent_def map_sum_eq_Inr
        split: option.splits sum.splits)
qed

lemma example_search_run:
  "search_handler example_backend url_request [] =
     (Inr (ok_response ''search'' [Match 80 (Some ''a.jpg'') None]), [],
      [SearchImage ''http://h/q.jpg'' False False])"
  by (simp add: search_handler_eq get_image_def url_request_def example_backend_def
      reference_backend_def example_search_image_def set_dist_def format_hit_def example_hit_def
      dist_to_percent_def)

lemma example_compare_run:
  "compare_handler example_backend url_request [] =
     (Inr (ok_response ''compare'' [Score 75]), [],
      [GenerateSignature ''http://h/1.jpg'' False, GenerateSignature ''http://h/22.jpg'' False,
       GisNormalizedDistance [14, 2] [15, 2]])"
  by (simp add: compare_handler_eq get_image_def url_request_def example_backend_def
      reference_backend_def example_generate_def example_scalar_distance_def dist_to_percent_def)

theorem score_is_percent_of_distance_witness:
  "search_handler example_backend url_request [] =
     (Inr (ok_response ''search'' [Match 80 (Some ''a.jpg'') None]), [],
      [SearchImage ''http://h/q.jpg'' False False]) \<and>
   compare_handler example_backend url_request [] =
     (Inr (ok_response ''compare'' [Score 75]), [],
      [GenerateSignature ''http://h/1.jpg'' False, GenerateSignature ''http://h/22.jpg'' False,
       GisNormalizedDistance [14, 2] [15, 2]]) \<and>
   dist_to_percent 0.2 = 80 \<and> dist_to_percent 0.25 = 75"
  using score_is_percent_of_distance [of "0.2" example_backend url_request "[]"]
    score_is_percent_of_distance [of "0.25" example_backend url_request "[]"]
  by (simp add: example_search_run example_compare_run)

text \<open>
  Claim C9. \<^verbatim>\<open>search_handler\<close> calls the library's search with \<^verbatim>\<open>all_orientations\<close> true
  exactly when the form field \<^verbatim>\<open>all_orientations\<close>, or the process-wide default of
  \<^verbatim>\<open>ALL_ORIENTATIONS\<close> when the request has no such field, is the string \<^verbatim>\<open>true\<close>; with any
  other value the flag is false and the library runs the identity orientation only.
  Whenever the request carries an image, that call is made.
\<close>

theorem search_handler_all_orientations:
  assumes "search_handler be request s = (r, s', calls)"
  shows "(\<forall>img ao bs. SearchImage img ao bs \<in> set calls \<longrightarrow>
            (ao \<longleftrightarrow> (case req_form request ''all_orientations'' of
                      None \<Rightarrow> env_all_orientations be
                    | Some v \<Rightarrow> v) = ''true'')) \<and>
         (req_form request ''url'' \<noteq> None \<or> req_files request ''image'' \<noteq> None \<longrightarrow>
            (\<exists>img bs. SearchImage img
                 ((case req_form request ''all_orientations'' of
                     None \<Rightarrow> env_all_orientations be
                   | Some v \<Rightarrow> v) = ''true'') bs \<in> set calls))"
  using assms unfolding search_handler_eq get_image_def Let_def
  by (auto split: option.splits sum.splits)

lemma example_all_orientations_run:
  "search_handler example_backend all_orientations_request [] =
     (Inr (ok_response ''search'' [Match 80 (Some ''a.jpg'') None, Match 60 (Some ''c.jpg'') None]),
      [], [SearchImage ''http://h/q.jpg'' True False])"
  by (simp add: search_handler_eq get_image_def url_request_def all_orientations_request_def
      example_backend_def reference_backend_def example_search_image_def set_dist_def
      format_hit_def example_hit_def dist_to_percent_def)

theorem search_handler_all_orientations_witness:
  "search_handler example_backend all_orientations_request [] =
     (Inr (ok_response ''search'' [Match 80 (Some ''a.jpg'') None, Match 60 (Some ''c.jpg'') None]),
      [], [SearchImage ''http://h/q.jpg'' True False]) \<and>
   req_form all_orientations_request ''all_orientations'' = Some ''true'' \<and>
   search_handler example_backend url_request [] =
     (Inr (ok_response ''search'' [Match 80 (Some ''a.jpg'') None]), [],
      [SearchImage ''http://h/q.jpg'' False False]) \<and>
   req_form url_request ''all_orientations'' = None \<and>
   env_all_orientations example_backend = ''false''"
proof -
  note checked = search_handler_all_orientations [OF example_all_orientations_run]
    search_handler_all_orientations [OF example_search_run]
  have a: "req_form all_orientations_request ''all_orientations'' = Some ''true''"
    by (simp add: all_orientations_request_def)
  have b: "req_form url_request ''all_orientations'' = None"
    by (simp add: url_request_def)
  have c: "env_all_orientations example_backend = ''false''"
    by (simp add: example_backend_def reference_backend_def)
  from checked show ?thesis
    by (simp only: example_all_orientations_run example_search_run a b c simp_thms)
qed


lemma es_delete_ignoring_calls:
  "es_delete_ignoring be i ignore s = (r, s', c) \<Longrightarrow> c = [EsDelete i ignore] \<and> s' = snd (es_delete be s i)"
  unfolding es_delete_ignoring_def by (auto split: prod.splits if_splits)

lemma delete_ids_calls:
  "delete_ids be ids s = (r, s', c) \<Longrightarrow>
     \<exists>k \<le> length ids. c = map (\<lambda>i. EsDelete i [404]) (take k ids) \<and>
        (r = Inr () \<longrightarrow> k = length ids)"
proof (induction ids arbitrary: s r s' c)
  case Nil
  then show ?case by simp
next
  case (Cons i ids)
  obtain r1 s1 c1 where d: "es_delete_ignoring be i [404] s = (r1, s1, c1)"
    by (metis prod_cases3)
  from es_delete_ignoring_calls [OF d] have c1: "c1 = [EsDelete i [404]]" by simp
  show ?case
  proof (cases r1)
    case (Inl e)
    with Cons.prems d c1 have "c = [EsDelete i [404]]" and "r = Inl e" by simp_all
    then show ?thesis by (intro exI [of _ 1]) simp
  next
    case (Inr u)
    obtain r2 s2 c2 where rest: "delete_ids be ids s1 = (r2, s2, c2)"
      by (metis prod_cases3)
    from Cons.IH [OF rest] obtain k where
      k: "k \<le> length ids" "c2 = map (\<lambda>i. EsDelete i [404]) (take k ids)"
         "r2 = Inr () \<longrightarrow> k = length ids"
      by blast
    from Cons.prems d Inr rest c1 have "r = r2" and "c = EsDelete i [404] # c2" by simp_all
    with k show ?thesis by (intro exI [of _ "Suc k"]) simp
  qed
qed

lemma delete_ids_only_deletes:
  "delete_ids be ids s = (r, s', c) \<Longrightarrow> x \<in> set c \<Longrightarrow> \<exists>i. x = EsDelete i [404] \<and> i \<in> set ids"
  by (drule delete_ids_calls) (fastforce dest: in_set_takeD)

text \<open>
  Claim C10. \<^verbatim>\<open>get_image\<close> returns the value of the URL form field, flagged as not a
  byte stream, whenever that field is present, without reading any upload; it reads the
  uploaded file only when the URL field is absent. In the add, search and compare
  handlers every image handed to the library is the one \<^verbatim>\<open>get_image\<close> chose for its
  fields, and a file is read only for a field pair whose URL field is absent.
\<close>

theorem url_field_takes_precedence:
  "(req_form request url_field = Some url \<longrightarrow>
      get_image request url_field file_field s = (Inr (url, False), s, [])) \<and>
   (req_form request url_field = None \<longrightarrow> req_files request file_field = Some bytes \<longrightarrow>
      get_image request url_field file_field s = (Inr (bytes, True), s, [FileRead file_field])) \<and>
   (add_handler be request s = (r, s', calls) \<longrightarrow>
      (\<forall>f. FileRead f \<in> set calls \<longrightarrow> f = ''image'' \<and> req_form request ''url'' = None) \<and>
      (\<forall>p i b m. AddImage p i b m \<in> set calls \<longrightarrow>
         (case req_form request ''url'' of
            Some u \<Rightarrow> i = u \<and> \<not> b
          | None \<Rightarrow> req_files request ''image'' = Some i \<and> b))) \<and>
   (search_handler be request s = (r, s', calls) \<longrightarrow>
      (\<forall>f. FileRead f \<in> set calls \<longrightarrow> f = ''image'' \<and> req_form request ''url'' = None) \<and>
      (\<forall>i ao b. SearchImage i ao b \<in> set calls \<longrightarrow>
         (case req_form request ''url'' of
            Some u \<Rightarrow> i = u \<and> \<not> b
          | None \<Rightarrow> req_files request ''image'' = Some i \<and> b))) \<and>
   (compare_handler be request s = (r, s', calls) \<longrightarrow>
      (\<forall>f. FileRead f \<in> set calls \<longrightarrow>
         (f = ''image1'' \<and> req_form request ''url1'' = None) \<or>
         (f = ''image2'' \<and> req_form request ''url2'' = None)) \<and>
      (\<forall>i b. GenerateSignature i b \<in> set calls \<longrightarrow>
         (case req_form request ''url1'' of
            Some u \<Rightarrow> i = u \<and> \<not> b
          | None \<Rightarrow> req_files request ''image1'' = Some i \<and> b) \<or>
         (case req_form request ''url2'' of
            Some u \<Rightarrow> i = u \<and> \<not> b
          | None \<Rightarrow> req_files request ''image2'' = Some i \<and> b)))"
proof (intro conjI impI)
  assume "req_form request url_field = Some url"
  then show "get_image request url_field file_field s = (Inr (url, False), s, [])"
    by (simp add: get_image_def)
next
  assume "req_form request url_field = None" and "req_files request file_field = Some bytes"
  then show "get_image request url_field file_field s =
      (Inr (bytes, True), s, [FileRead file_field])"
    by (simp add: get_image_def)
next
  assume run: "add_handler be request s = (r, s', calls)"
  from run show "\<forall>f. FileRead f \<in> set calls \<longrightarrow> f = ''image'' \<and> req_form request ''url'' = None"
    unfolding add_handler_eq get_image_def
    by (auto split: option.splits sum.splits prod.splits dest: delete_ids_only_deletes)
  from run show "\<forall>p i b m. AddImage p i b m \<in> set calls \<longrightarrow>
         (case req_form request ''url'' of
            Some u \<Rightarrow> i = u \<and> \<not> b
          | None \<Rightarrow> req_files request ''image'' = Some i \<and> b)"
    unfolding add_handler_eq get_image_def
    by (auto split: option.splits sum.splits prod.splits dest: delete_ids_only_deletes)
next
  assume run: "search_handler be request s = (r, s', calls)"
  from run show "\<forall>f. FileRead f \<in> set calls \<longrightarrow> f = ''image'' \<and> req_form request ''url'' = None"
    unfolding search_handler_eq get_image_def Let_def
    by (auto split: option.splits)
  from run show "\<forall>i ao b. SearchImage i ao b \<in> set calls \<longrightarrow>
         (case req_form request ''url'' of
            Some u \<Rightarrow> i = u \<and> \<not> b
          | None \<Rightarrow> req_files request ''image'' = Some i \<and> b)"
    unfolding search_handler_eq get_image_def Let_def
    by (auto split: option.splits)
next
  assume run: "compare_handler be request s = (r, s', calls)"
  from run show "\<forall>f. FileRead f \<in> set calls \<longrightarrow>
         (f = ''image1'' \<and> req_form request ''url1'' = None) \<or>
         (f = ''image2'' \<and> req_form request ''url2'' = None)"
    unfolding compare_handler_eq get_image_def
    by (auto split: option.splits sum.splits)
  from run show "\<forall>i b. GenerateSignature i b \<in> set calls \<longrightarrow>
         (case req_form request ''url1'' of
            Some u \<Rightarrow> i = u \<and> \<not> b
          | None \<Rightarrow> req_files request ''image1'' = Some i \<and> b) \<or>
         (case req_form request ''url2'' of
            Some u \<Rightarrow> i = u \<and> \<not> b
          | None \<Rightarrow> req_files request ''image2'' = Some i \<and> b)"
    unfolding compare_handler_eq get_image_def
    by (auto split: option.splits sum.splits)
qed

lemma example_add_run:
  "add_handler example_backend url_request [] =
     (Inr (ok_response ''add'' []),
      [(''x'', \<lparr>src_signature = Some [14, 2], src_metadata = None, src_url = None,
                src_path = Some ''p.jpg''\<rparr>)],
      [EsSearchPath ''p.jpg'', AddImage ''p.jpg'' ''http://h/q.jpg'' False None])"
  by (simp add: add_handler_eq load_metadata_def get_image_def url_request_def
      example_backend_def reference_backend_def ref_search_path_def ref_add_image_def
      example_generate_def fresh_id_def)

lemma example_add_file_run:
  "add_handler example_backend file_request [] =
     (Inr (ok_response ''add'' []),
      [(''x'', \<lparr>src_signature = Some [6, 2], src_metadata = None, src_url = None,
                src_path = Some ''p.jpg''\<rparr>)],
      [FileRead ''image'', EsSearchPath ''p.jpg'', AddImage ''p.jpg'' ''bytes0'' True None])"
  by (simp add: add_handler_eq load_metadata_def get_image_def file_request_def
      example_backend_def reference_backend_def ref_search_path_def ref_add_image_def
      example_generate_def fresh_id_def)

theorem url_field_takes_precedence_witness:
  "req_form url_request ''url'' = Some ''http://h/q.jpg'' \<and>
   req_files url_request ''image'' = Some ''bytes0'' \<and>
   get_image url_request ''url'' ''image'' ([] :: string index) =
     (Inr (''http://h/q.jpg'', False), [], [] :: string call list) \<and>
   req_form file_request ''url'' = None \<and>
   req_files file_request ''image'' = Some ''bytes0'' \<and>
   get_image file_request ''url'' ''image'' ([] :: string index) =
     (Inr (''bytes0'', True), [], [FileRead ''image'' :: string call]) \<and>
   add_handler example_backend url_request [] =
     (Inr (ok_response ''add'' []),
      [(''x'', \<lparr>src_signature = Some [14, 2], src_metadata = None, src_url = None,
                src_path = Some ''p.jpg''\<rparr>)],
      [EsSearchPath ''p.jpg'', AddImage ''p.jpg'' ''http://h/q.jpg'' False None]) \<and>
   add_handler example_backend file_request [] =
     (Inr (ok_response ''add'' []),
      [(''x'', \<lparr>src_signature = Some [6, 2], src_metadata = None, src_url = None,
                src_path = Some ''p.jpg''\<rparr>)],
      [FileRead ''image'', EsSearchPath ''p.jpg'', AddImage ''p.jpg'' ''bytes0'' True None])"
proof -
  have a: "req_form url_request ''url'' = Some ''http://h/q.jpg''"
    and b: "req_files url_request ''image'' = Some ''bytes0''"
    by (simp_all add: url_request_def)
  have c: "req_form file_request ''url'' = None"
    and d: "req_files file_request ''image'' = Some ''bytes0''"
    by (simp_all add: file_request_def)
  from url_field_takes_precedence
         [where request = url_request and url_field = "''url''" and file_field = "''image''"
            and url = "''http://h/q.jpg''" and s = "[] :: string index"]
       a
  have e: "get_image url_request ''url'' ''image'' ([] :: string index) =
     (Inr (''http://h/q.jpg'', False), [], [] :: string call list)"
    by blast
  from url_field_takes_precedence
         [where request = file_request and url_field = "''url''" and file_field = "''image''"
            and bytes = "''bytes0''" and s = "[] :: string index"]
       c d
  have f: "get_image file_request ''url'' ''image'' ([] :: string index) =
     (Inr (''bytes0'', True), [], [FileRead ''image'' :: string call])"
    by blast
  show ?thesis
    by (simp only: a b c d e f example_add_run example_add_file_run simp_thms)
qed


section \<open>Properties on the reference index\<close>

lemma reference_backend_fields:
  "es_search_path (reference_backend g d l srch ao) = ref_search_path"
  "es_scan (reference_backend g d l srch ao) = ref_scan"
  "es_delete (reference_backend g d l srch ao) = ref_delete"
  "ses_add_image (reference_backend g d l srch ao) = ref_add_image g"
  "ses_search_image (reference_backend g d l srch ao) = srch"
  "gis_generate_signature (reference_backend g d l srch ao) = g"
  "gis_normalized_distance (reference_backend g d l srch ao) = d"
  "json_loads (reference_backend g d l srch ao) = l"
  "env_all_orientations (reference_backend g d l srch ao) = ao"
  by (simp_all add: reference_backend_def)

lemma fold_max_ge:
  "n \<le> fold (\<lambda>doc n. max (length (fst doc)) n) idx n"
proof (induction idx arbitrary: n)
  case Nil
  then show ?case by simp
next
  case (Cons a idx)
  have "n \<le> max (length (fst a)) n" by simp
  also have "\<dots> \<le> fold (\<lambda>doc n. max (length (fst doc)) n) idx (max (length (fst a)) n)"
    by (rule Cons.IH)
  finally show ?case by simp
qed

lemma fold_max_member:
  "doc \<in> set idx \<Longrightarrow> length (fst doc) \<le> fold (\<lambda>doc n. max (length (fst doc)) n) idx n"
proof (induction idx arbitrary: n)
  case Nil
  then show ?case by simp
next
  case (Cons a idx)
  show ?case
  proof (cases "doc = a")
    case True
    have "length (fst a) \<le> max (length (fst a)) n" by simp
    also have "\<dots> \<le> fold (\<lambda>doc n. max (length (fst doc)) n) idx (max (length (fst a)) n)"
      by (rule fold_max_ge)
    finally show ?thesis using True by simp
  next
    case False
    with Cons.prems have "doc \<in> set idx" by simp
    from Cons.IH [OF this] show ?thesis by simp
  qed
qed

lemma fresh_id_fresh: "fresh_id idx \<notin> set (map fst idx)"
proof
  assume "fresh_id idx \<in> set (map fst idx)"
  then obtain doc where doc: "doc \<in> set idx" and eq: "fst doc = fresh_id idx" by auto
  from fold_max_member [OF doc, of 0] eq show False
    by (simp add: fresh_id_def)
qed

lemma ref_ids_with_path:
  "ids_with_path (reference_backend g d l srch ao) path idx =
     (Inr (looked_up idx path), idx, [EsSearchPath path])"
  by (simp add: ids_with_path_def reference_backend_def ref_search_path_def
      records_with_path_def looked_up_def comp_def)

lemma looked_up_all:
  "length (records_with_path idx path) \<le> default_size \<Longrightarrow>
     looked_up idx path = map fst (records_with_path idx path)"
  by (simp add: looked_up_def)

lemma looked_up_subset: "set (looked_up idx path) \<subseteq> set (map fst idx)"
proof -
  have "set (take default_size (records_with_path idx path)) \<subseteq> set idx"
    using set_take_subset [of default_size "records_with_path idx path"]
    by (auto simp: records_with_path_def)
  then show ?thesis
    unfolding looked_up_def by auto
qed

lemma ref_delete_state:
  "snd (ref_delete idx i) = filter (\<lambda>doc. fst doc \<noteq> i) idx"
proof -
  have "i \<notin> set (map fst idx) \<Longrightarrow> filter (\<lambda>doc. fst doc \<noteq> i) idx = idx"
    by (induction idx) auto
  then show ?thesis by (auto simp: ref_delete_def)
qed

lemma ref_es_delete_ignoring:
  "es_delete_ignoring (reference_backend g d l srch ao) i [404] idx =
     (Inr (), filter (\<lambda>doc. fst doc \<noteq> i) idx, [EsDelete i [404]])"
proof -
  have "ref_delete idx i = (fst (ref_delete idx i), filter (\<lambda>doc. fst doc \<noteq> i) idx)"
    by (metis prod.collapse ref_delete_state)
  moreover have "fst (ref_delete idx i) = 200 \<or> fst (ref_delete idx i) = 404"
    by (simp add: ref_delete_def)
  ultimately show ?thesis
    by (auto simp: es_delete_ignoring_def reference_backend_def split: prod.splits)
qed

lemma ref_delete_ids:
  "delete_ids (reference_backend g d l srch ao) ids idx =
     (Inr (), filter (\<lambda>doc. fst doc \<notin> set ids) idx, map (\<lambda>i. EsDelete i [404]) ids)"
proof (induction ids arbitrary: idx)
  case Nil
  then show ?case by simp
next
  case (Cons i ids)
  have "filter (\<lambda>doc. fst doc \<notin> set ids) (filter (\<lambda>doc. fst doc \<noteq> i) idx) =
        filter (\<lambda>doc. fst doc \<notin> set (i # ids)) idx"
    by (induction idx) auto
  then show ?case
    by (simp add: ref_es_delete_ignoring Cons.IH)
qed

lemma filter_absent_ids:
  "set ids \<inter> set (map fst idx) = {} \<Longrightarrow> filter (\<lambda>doc. fst doc \<notin> set ids) idx = idx"
  by (induction idx) auto


lemma records_after_delete:
  assumes "length (records_with_path idx path) \<le> default_size"
  shows "records_with_path (filter (\<lambda>doc. fst doc \<notin> set (looked_up idx path)) idx) path = []"
  unfolding looked_up_all [OF assms] records_with_path_def
  by (auto simp: filter_empty_conv)

lemma ref_delete_handler:
  "req_form request ''filepath'' = Some path \<Longrightarrow>
   delete_handler (reference_backend g d l srch ao) request idx =
     (Inr (ok_response ''delete'' []),
      filter (\<lambda>doc. fst doc \<notin> set (looked_up idx path)) idx,
      EsSearchPath path # map (\<lambda>i. EsDelete i [404]) (looked_up idx path))"
  unfolding delete_handler_def
  by (simp add: bind_act_def form_field_def ref_ids_with_path ref_delete_ids return_act_def)

lemma looked_up_none: "records_with_path idx path = [] \<Longrightarrow> looked_up idx path = []"
  by (simp add: looked_up_def)

text \<open>
  Claim C7. For every backend, a delete answered 404 (the identifier is absent) does not
  raise. On the reference index, deleting identifiers that are all absent succeeds and
  leaves the index as it was; \<^verbatim>\<open>delete_handler\<close> on a path with no record returns the
  success response, issues no delete and leaves the index as it was; and for any index,
  a delete of a path succeeds and removes the records its lookup returned: when the
  path had no more records than one page of the lookup, none is left and the same
  request made again succeeds with no effect.
\<close>

theorem delete_is_idempotent:
  "(es_delete be s i = (404, s1) \<longrightarrow>
      es_delete_ignoring be i [404] s = (Inr (), s1, [EsDelete i [404]])) \<and>
   (set ids \<inter> set (map fst idx) = {} \<longrightarrow>
      delete_ids (reference_backend g d l srch ao) ids idx =
        (Inr (), idx, map (\<lambda>i. EsDelete i [404]) ids)) \<and>
   (req_form request ''filepath'' = Some path \<longrightarrow> records_with_path idx path = [] \<longrightarrow>
      delete_handler (reference_backend g d l srch ao) request idx =
        (Inr (ok_response ''delete'' []), idx, [EsSearchPath path])) \<and>
   (req_form request ''filepath'' = Some path \<longrightarrow>
      (\<exists>idx1 c1.
         delete_handler (reference_backend g d l srch ao) request idx =
           (Inr (ok_response ''delete'' []), idx1, c1) \<and>
         idx1 = filter (\<lambda>doc. fst doc \<notin> set (looked_up idx path)) idx \<and>
         (length (records_with_path idx path) \<le> default_size \<longrightarrow>
            records_with_path idx1 path = [] \<and>
            delete_handler (reference_backend g d l srch ao) request idx1 =
              (Inr (ok_response ''delete'' []), idx1, [EsSearchPath path]))))"
proof (intro conjI impI)
  assume "es_delete be s i = (404, s1)"
  then show "es_delete_ignoring be i [404] s = (Inr (), s1, [EsDelete i [404]])"
    by (simp add: es_delete_ignoring_def)
next
  assume "set ids \<inter> set (map fst idx) = {}"
  then show "delete_ids (reference_backend g d l srch ao) ids idx =
        (Inr (), idx, map (\<lambda>i. EsDelete i [404]) ids)"
    by (simp only: ref_delete_ids filter_absent_ids)
next
  assume "req_form request ''filepath'' = Some path" and "records_with_path idx path = []"
  then show "delete_handler (reference_backend g d l srch ao) request idx =
        (Inr (ok_response ''delete'' []), idx, [EsSearchPath path])"
    by (simp add: ref_delete_handler looked_up_none)
next
  assume p: "req_form request ''filepath'' = Some path"
  let ?idx1 = "filter (\<lambda>doc. fst doc \<notin> set (looked_up idx path)) idx"
  have first: "delete_handler (reference_backend g d l srch ao) request idx =
      (Inr (ok_response ''delete'' []), ?idx1,
       EsSearchPath path # map (\<lambda>i. EsDelete i [404]) (looked_up idx path))"
    by (rule ref_delete_handler [OF p])
  have rest: "length (records_with_path idx path) \<le> default_size \<longrightarrow>
            records_with_path ?idx1 path = [] \<and>
            delete_handler (reference_backend g d l srch ao) request ?idx1 =
              (Inr (ok_response ''delete'' []), ?idx1, [EsSearchPath path])"
  proof
    assume page: "length (records_with_path idx path) \<le> default_size"
    have gone: "records_with_path ?idx1 path = []"
      by (rule records_after_delete [OF page])
    have "delete_handler (reference_backend g d l srch ao) request ?idx1 =
      (Inr (ok_response ''delete'' []), ?idx1, [EsSearchPath path])"
      unfolding ref_delete_handler [OF p] looked_up_none [OF gone] by simp
    with gone show "records_with_path ?idx1 path = [] \<and>
            delete_handler (reference_backend g d l srch ao) request ?idx1 =
              (Inr (ok_response ''delete'' []), ?idx1, [EsSearchPath path])"
      by simp
  qed
  from first rest
  show "\<exists>idx1 c1.
         delete_handler (reference_backend g d l srch ao) request idx =
           (Inr (ok_response ''delete'' []), idx1, c1) \<and>
         idx1 = filter (\<lambda>doc. fst doc \<notin> set (looked_up idx path)) idx \<and>
         (length (records_with_path idx path) \<le> default_size \<longrightarrow>
            records_with_path idx1 path = [] \<and>
            delete_handler (reference_backend g d l srch ao) request idx1 =
              (Inr (ok_response ''delete'' []), idx1, [EsSearchPath path]))"
    by blast
qed

lemma example_looked_up: "looked_up example_index ''p.jpg'' = [''a'', ''b'']"
  by (simp add: looked_up_def records_with_path_def example_index_def example_doc_def
      default_size_def)

lemma example_delete_run:
  "delete_handler example_backend url_request example_index =
     (Inr (ok_response ''delete'' []), [(''c'', example_doc ''r.jpg'')],
      [EsSearchPath ''p.jpg'', EsDelete ''a'' [404], EsDelete ''b'' [404]])"
proof -
  have p: "req_form url_request ''filepath'' = Some ''p.jpg''"
    by (simp add: url_request_def)
  show ?thesis
    unfolding example_backend_def ref_delete_handler [OF p] example_looked_up
    by (simp add: example_index_def)
qed

theorem delete_is_idempotent_witness:
  "es_delete example_backend example_index ''zz'' = (404, example_index) \<and>
   es_delete_ignoring example_backend ''zz'' [404] example_index =
     (Inr (), example_index, [EsDelete ''zz'' [404]]) \<and>
   req_form url_request ''filepath'' = Some ''p.jpg'' \<and>
   delete_handler example_backend url_request example_index =
     (Inr (ok_response ''delete'' []), [(''c'', example_doc ''r.jpg'')],
      [EsSearchPath ''p.jpg'', EsDelete ''a'' [404], EsDelete ''b'' [404]]) \<and>
   records_with_path [(''c'', example_doc ''r.jpg'')] ''p.jpg'' = [] \<and>
   delete_handler example_backend url_request [(''c'', example_doc ''r.jpg'')] =
     (Inr (ok_response ''delete'' []), [(''c'', example_doc ''r.jpg'')], [EsSearchPath ''p.jpg''])"
proof -
  have absent: "es_delete example_backend example_index ''zz'' = (404, example_index)"
    by (simp add: example_backend_def reference_backend_def ref_delete_def example_index_def)
  have p: "req_form url_request ''filepath'' = Some ''p.jpg''"
    by (simp add: url_request_def)
  have none: "records_with_path [(''c'', example_doc ''r.jpg'')] ''p.jpg'' = []"
    by (simp add: records_with_path_def example_doc_def)
  note inst = delete_is_idempotent
      [where be = example_backend and s = example_index and i = "''zz''" and ?s1.0 = example_index
         and request = url_request and path = "''p.jpg''"
         and idx = "[(''c'', example_doc ''r.jpg'')]"
         and g = example_generate and d = example_scalar_distance and l = example_loads
         and srch = example_search_image and ao = "''false''",
       folded example_backend_def]
  from inst absent have ignored:
    "es_delete_ignoring example_backend ''zz'' [404] example_index =
       (Inr (), example_index, [EsDelete ''zz'' [404]])"
    by blast
  from inst p none have again:
    "delete_handler example_backend url_request [(''c'', example_doc ''r.jpg'')] =
       (Inr (ok_response ''delete'' []), [(''c'', example_doc ''r.jpg'')], [EsSearchPath ''p.jpg''])"
    by blast
  show ?thesis
    by (simp only: absent ignored p none again example_delete_run simp_thms)
qed

lemma records_after_add:
  assumes "length (records_with_path idx path) \<le> default_size"
  shows "records_with_path
     (filter (\<lambda>doc. fst doc \<notin> set (looked_up idx path)) (idx @ [(fresh_id idx, doc)])) path =
     (if src_path doc = Some path then [(fresh_id idx, doc)] else [])"
proof -
  have "fresh_id idx \<notin> set (looked_up idx path)"
    using fresh_id_fresh [of idx] looked_up_subset [of idx path] by blast
  then have "filter (\<lambda>doc. fst doc \<notin> set (looked_up idx path)) (idx @ [(fresh_id idx, doc)]) =
      filter (\<lambda>doc. fst doc \<notin> set (looked_up idx path)) idx @ [(fresh_id idx, doc)]"
    by simp
  then show ?thesis
    using records_after_delete [OF assms]
    by (simp add: records_with_path_def)
qed

text \<open>
  The order of a successful add, for every backend: the identifiers of the path are
  looked up in the index as it was before the insert, then the new record is inserted,
  then one delete is issued for each identifier of that lookup, and nothing else apart
  from reading the upload.
\<close>

lemma add_handler_call_order:
  assumes run: "add_handler (be :: ('s, 'm) backend) request s = (Inr resp, s', calls)"
  shows "\<exists>path img bs metadata matches s1 reads.
         req_form request ''filepath'' = Some path \<and>
         es_search_path be s path = Inr matches \<and>
         ses_add_image be s path img bs metadata = Inr s1 \<and>
         delete_ids be (map hit_id matches) s1 =
           (Inr (), s', map (\<lambda>i. EsDelete i [404]) (map hit_id matches)) \<and>
         calls = reads @ [EsSearchPath path, AddImage path img bs metadata] @
                   map (\<lambda>i. EsDelete i [404]) (map hit_id matches) \<and>
         (reads = [] \<or> reads = [FileRead ''image''])"
proof -
  from run obtain path where path: "req_form request ''filepath'' = Some path"
    unfolding add_handler_eq by (auto split: option.splits)
  from run path obtain metadata where md: "fst (load_metadata be request s) = Inr metadata"
    unfolding add_handler_eq by (auto split: sum.splits)
  from run path md obtain img bs and reads :: "'m call list" where
    gi: "get_image request ''url'' ''image'' s = (Inr (img, bs), s, reads)"
    and reads: "reads = [] \<or> reads = [FileRead ''image'']"
    unfolding add_handler_eq get_image_def by (auto split: option.splits)
  from run path md gi obtain matches where m: "es_search_path be s path = Inr matches"
    unfolding add_handler_eq by (cases "es_search_path be s path") auto
  from run path md gi m obtain s1 where a: "ses_add_image be s path img bs metadata = Inr s1"
    unfolding add_handler_eq by (cases "ses_add_image be s path img bs metadata") auto
  obtain r4 s4 c4 where dl: "delete_ids be (map hit_id matches) s1 = (r4, s4, c4)"
    by (metis prod_cases3)
  from run path md gi m a dl have r4: "r4 = Inr ()" and s4: "s4 = s'"
    and calls: "calls = reads @ [EsSearchPath path, AddImage path img bs metadata] @ c4"
    unfolding add_handler_eq by (auto simp: map_sum_eq_Inr)
  from delete_ids_calls [OF dl] r4
  have c4: "c4 = map (\<lambda>i. EsDelete i [404]) (map hit_id matches)" by auto
  from path m a dl r4 s4 calls c4 reads show ?thesis
    by blast
qed

text \<open>
  On the reference index, a successful add deletes exactly the identifiers its lookup
  returned, never the new one. When the path had no more records than one page of the
  lookup, the record just inserted is the only record of the path afterwards.
\<close>

lemma add_handler_replaces_first_page:
  assumes run: "add_handler (reference_backend g d l srch ao) request (idx :: 'n index) =
        (Inr resp, idx', calls)"
  shows "\<exists>path doc.
         req_form request ''filepath'' = Some path \<and>
         idx' = filter (\<lambda>doc. fst doc \<notin> set (looked_up idx path)) (idx @ [(fresh_id idx, doc)]) \<and>
         src_path doc = Some path \<and>
         fresh_id idx \<notin> set (map fst idx) \<and>
         EsDelete (fresh_id idx) [404] \<notin> set calls \<and>
         (\<forall>i. EsDelete i [404] \<in> set calls \<longleftrightarrow> i \<in> set (looked_up idx path)) \<and>
         (length (records_with_path idx path) \<le> default_size \<longrightarrow>
            records_with_path idx' path = [(fresh_id idx, doc)])"
proof -
  let ?be = "reference_backend g d l srch ao"
  from run obtain path where path: "req_form request ''filepath'' = Some path"
    unfolding add_handler_eq by (auto split: option.splits)
  from run path obtain metadata where md: "fst (load_metadata ?be request idx) = Inr metadata"
    unfolding add_handler_eq by (auto split: sum.splits)
  from run path md obtain img bs and reads :: "'n call list" where
    gi: "get_image request ''url'' ''image'' idx = (Inr (img, bs), idx, reads)"
    and reads: "reads = [] \<or> reads = [FileRead ''image'']"
    unfolding add_handler_eq get_image_def by (auto split: option.splits)
  let ?old = "looked_up idx path"
  have search: "es_search_path ?be idx path =
      Inr (map (\<lambda>doc. \<lparr>hit_id = fst doc, hit_score = 1,
                       hit_source = \<lparr>src_signature = None, src_metadata = None,
                                     src_url = None, src_path = None\<rparr>\<rparr>)
            (take default_size (records_with_path idx path)))"
    by (simp add: reference_backend_fields ref_search_path_def records_with_path_def)
  from run path md gi search obtain sg where sg: "g img bs = Inr sg"
    unfolding add_handler_eq
    by (cases "g img bs") (auto simp: reference_backend_fields ref_add_image_def)
  let ?doc = "\<lparr>src_signature = Some sg, src_metadata = metadata,
                src_url = None, src_path = Some path\<rparr>"
  have add: "ses_add_image ?be idx path img bs metadata = Inr (idx @ [(fresh_id idx, ?doc)])"
    by (simp add: reference_backend_fields ref_add_image_def sg)
  from run path md gi search add
  have idx': "idx' = filter (\<lambda>doc. fst doc \<notin> set ?old) (idx @ [(fresh_id idx, ?doc)])"
    and calls: "calls = reads @ [EsSearchPath path, AddImage path img bs metadata] @
                   map (\<lambda>i. EsDelete i [404]) ?old"
    unfolding add_handler_eq by (auto simp: ref_delete_ids comp_def looked_up_def)
  have recs: "length (records_with_path idx path) \<le> default_size \<longrightarrow>
      records_with_path idx' path = [(fresh_id idx, ?doc)]"
  proof
    assume page: "length (records_with_path idx path) \<le> default_size"
    show "records_with_path idx' path = [(fresh_id idx, ?doc)]"
      unfolding idx' records_after_add [OF page] by simp
  qed
  have fresh: "fresh_id idx \<notin> set (map fst idx)"
    by (rule fresh_id_fresh)
  then have fresh_old: "fresh_id idx \<notin> set ?old"
    using looked_up_subset [of idx path] by blast
  have dels: "\<forall>i. EsDelete i [404] \<in> set calls \<longleftrightarrow> i \<in> set ?old"
    using reads unfolding calls by auto
  from fresh_old dels have not_deleted: "EsDelete (fresh_id idx) [404] \<notin> set calls"
    by blast
  from path idx' recs fresh not_deleted dels show ?thesis
    by (intro exI [of _ path] exI [of _ ?doc]) simp
qed

lemma crowded_looked_up:
  "looked_up crowded_index ''p.jpg'' =
     [''r01'', ''r02'', ''r03'', ''r04'', ''r05'', ''r06'', ''r07'', ''r08'', ''r09'', ''r10'']"
  by (simp add: looked_up_def records_with_path_def crowded_index_def example_doc_def
      default_size_def)

lemma crowded_search:
  "ref_search_path crowded_index ''p.jpg'' =
     (Inr (map (\<lambda>i. \<lparr>hit_id = i, hit_score = 1,
                       hit_source = \<lparr>src_signature = None, src_metadata = None,
                                     src_url = None, src_path = None\<rparr>\<rparr>)
            [''r01'', ''r02'', ''r03'', ''r04'', ''r05'', ''r06'', ''r07'', ''r08'', ''r09'',
             ''r10'']) :: py_error + string hit list)"
  by (simp add: ref_search_path_def crowded_index_def example_doc_def default_size_def)

text \<open>
  Claim C3 does not hold of the code. The lookup of \<^verbatim>\<open>ids_with_path\<close> names no size, so
  the engine answers its first page only. On an index that holds twelve records of the
  path, a successful add looks up ten identifiers, inserts the new record and deletes
  those ten: three records of the path exist afterwards, two of them old. The order
  (lookup, insert, delete) and the new record's survival are as the claim says.
\<close>

theorem add_handler_leaves_old_records:
  "length (records_with_path crowded_index ''p.jpg'') = 12 \<and>
   add_handler example_backend url_request crowded_index =
     (Inr (ok_response ''add'' []),
      [(''r11'', example_doc ''p.jpg''), (''r12'', example_doc ''p.jpg''),
       (''xxxx'', \<lparr>src_signature = Some [14, 2], src_metadata = None, src_url = None,
                   src_path = Some ''p.jpg''\<rparr>)],
      [EsSearchPath ''p.jpg'', AddImage ''p.jpg'' ''http://h/q.jpg'' False None,
       EsDelete ''r01'' [404], EsDelete ''r02'' [404], EsDelete ''r03'' [404],
       EsDelete ''r04'' [404], EsDelete ''r05'' [404], EsDelete ''r06'' [404],
       EsDelete ''r07'' [404], EsDelete ''r08'' [404], EsDelete ''r09'' [404],
       EsDelete ''r10'' [404]]) \<and>
   length (records_with_path
     [(''r11'', example_doc ''p.jpg''), (''r12'', example_doc ''p.jpg''),
      (''xxxx'', \<lparr>src_signature = Some [14, 2], src_metadata = None, src_url = None,
                  src_path = Some ''p.jpg''\<rparr>)] ''p.jpg'') = 3"
proof -
  have n: "length (records_with_path crowded_index ''p.jpg'') = 12"
    by (simp add: records_with_path_def crowded_index_def example_doc_def)
  have fresh: "fresh_id crowded_index = ''xxxx''"
    by (simp add: fresh_id_def crowded_index_def)
  have run: "add_handler example_backend url_request crowded_index =
     (Inr (ok_response ''add'' []),
      [(''r11'', example_doc ''p.jpg''), (''r12'', example_doc ''p.jpg''),
       (''xxxx'', \<lparr>src_signature = Some [14, 2], src_metadata = None, src_url = None,
                   src_path = Some ''p.jpg''\<rparr>)],
      [EsSearchPath ''p.jpg'', AddImage ''p.jpg'' ''http://h/q.jpg'' False None,
       EsDelete ''r01'' [404], EsDelete ''r02'' [404], EsDelete ''r03'' [404],
       EsDelete ''r04'' [404], EsDelete ''r05'' [404], EsDelete ''r06'' [404],
       EsDelete ''r07'' [404], EsDelete ''r08'' [404], EsDelete ''r09'' [404],
       EsDelete ''r10'' [404]])"
    unfolding add_handler_eq example_backend_def
    by (simp add: ref_delete_ids load_metadata_def get_image_def url_request_def
        reference_backend_fields crowded_search ref_add_image_def example_generate_def fresh
        del: delete_ids.simps)
       (simp add: crowded_index_def)
  have m: "length (records_with_path
     [(''r11'', example_doc ''p.jpg''), (''r12'', example_doc ''p.jpg''),
      (''xxxx'', \<lparr>src_signature = Some [14, 2], src_metadata = None, src_url = None,
                  src_path = Some ''p.jpg''\<rparr>)] ''p.jpg'') = 3"
    by (simp add: records_with_path_def example_doc_def)
  show ?thesis
    by (simp only: n run m simp_thms)
qed


section \<open>Properties of \<^verbatim>\<open>list_handler\<close>\<close>

lemma list_handler_eq:
  "list_handler be request s =
     (let params = (if req_method request = GET then req_args request else req_form request)
      in case int_param params ''offset'' 0 of
           Inl e \<Rightarrow> (Inl e, s, [])
         | Inr offset_int \<Rightarrow>
        (case int_param params ''limit'' 20 of
           Inl e \<Rightarrow> (Inl e, s, [])
         | Inr limit_int \<Rightarrow>
        (case es_scan be s (max offset_int 0) (max limit_int 0) of
           Inl e \<Rightarrow> (Inl e, s, [EsScan (max offset_int 0) (max limit_int 0)])
         | Inr hits \<Rightarrow>
             (map_sum id (\<lambda>paths. ok_response ''list'' (map PathItem paths)) (source_paths hits),
              s, [EsScan (max offset_int 0) (max limit_int 0)]))))"
  unfolding list_handler_def bind_act_def paths_at_location_def return_act_def Let_def
  by (auto split: prod.splits sum.splits)

lemma py_int_minus_5: "py_int ''-5'' = Inr (- 5)"
  by (simp add: py_int_def strip_def py_isspace_def decimal_value_def is_digit_def digit_value_def
      max_str_digits_def)

lemma py_int_minus_1: "py_int ''-1'' = Inr (- 1)"
  by (simp add: py_int_def strip_def py_isspace_def decimal_value_def is_digit_def digit_value_def
      max_str_digits_def)

lemma py_int_0: "py_int ''0'' = Inr 0"
  by (simp add: py_int_def strip_def py_isspace_def decimal_value_def is_digit_def digit_value_def
      max_str_digits_def)

lemma py_int_2: "py_int ''2'' = Inr 2"
  by (simp add: py_int_def strip_def py_isspace_def decimal_value_def is_digit_def digit_value_def
      max_str_digits_def)

lemma py_int_not_a_number: "py_int ''abc'' = Inl ValueError"
  by (simp add: py_int_def strip_def py_isspace_def decimal_value_def is_digit_def digit_value_def
      max_str_digits_def)

lemma py_int_separator_is_not_space: "py_int [CHR 0x1C, CHR ''1'', CHR 0x1F] = Inl ValueError"
  by (simp add: py_int_def strip_def py_isspace_def decimal_value_def is_digit_def digit_value_def
      max_str_digits_def)

lemma list_request_params:
  "int_param (if req_method (list_request m offset limit) = GET
              then req_args (list_request m offset limit)
              else req_form (list_request m offset limit)) ''offset'' dflt = py_int offset"
  "int_param (if req_method (list_request m offset limit) = GET
              then req_args (list_request m offset limit)
              else req_form (list_request m offset limit)) ''limit'' dflt = py_int limit"
  by (simp_all add: list_request_def int_param_def)

lemma list_handler_clamped_request:
  "list_handler be (list_request m ''-5'' ''-1'') s =
     (case es_scan be s 0 0 of
        Inl e \<Rightarrow> (Inl e, s, [EsScan 0 0])
      | Inr hits \<Rightarrow>
          (map_sum id (\<lambda>paths. ok_response ''list'' (map PathItem paths)) (source_paths hits),
           s, [EsScan 0 0]))"
  unfolding list_handler_eq Let_def list_request_params py_int_minus_5 py_int_minus_1
  by (simp split: sum.splits)

lemma list_handler_zero_request:
  "list_handler be (list_request m ''0'' ''0'') s =
     (case es_scan be s 0 0 of
        Inl e \<Rightarrow> (Inl e, s, [EsScan 0 0])
      | Inr hits \<Rightarrow>
          (map_sum id (\<lambda>paths. ok_response ''list'' (map PathItem paths)) (source_paths hits),
           s, [EsScan 0 0]))"
  unfolding list_handler_eq Let_def list_request_params py_int_0
  by (simp split: sum.splits)

text \<open>
  Claim C8. For every list request whose parameters parse, \<^verbatim>\<open>list_handler\<close> issues
  exactly one paginated lookup, \<^verbatim>\<open>paths_at_location\<close> at the parsed offset and limit each
  raised to 0 when negative, so both are at least 0; a request whose parameter does not
  parse raises before any lookup. Hence every lookup in a trace has an offset and a
  limit that are at least 0. A request with \<^verbatim>\<open>offset=-5\<close> and \<^verbatim>\<open>limit=-1\<close> behaves
  exactly as the request with \<^verbatim>\<open>offset=0\<close> and \<^verbatim>\<open>limit=0\<close>: its lookup is
  \<^verbatim>\<open>paths_at_location(0, 0)\<close>, and on the reference index it returns the empty list of
  paths.
\<close>

theorem list_handler_clamps:
  "(int_param (if req_method request = GET then req_args request else req_form request)
      ''offset'' 0 = Inr offset_int \<longrightarrow>
    int_param (if req_method request = GET then req_args request else req_form request)
      ''limit'' 20 = Inr limit_int \<longrightarrow>
      list_handler be request s =
        bind_act (paths_at_location be (max offset_int 0) (max limit_int 0))
          (\<lambda>paths. return_act (ok_response ''list'' (map PathItem paths))) s \<and>
      snd (snd (list_handler be request s)) = [EsScan (max offset_int 0) (max limit_int 0)] \<and>
      0 \<le> max offset_int 0 \<and> 0 \<le> max limit_int 0) \<and>
   (int_param (if req_method request = GET then req_args request else req_form request)
      ''offset'' 0 = Inl e \<longrightarrow>
      list_handler be request s = (Inl e, s, [])) \<and>
   (int_param (if req_method request = GET then req_args request else req_form request)
      ''offset'' 0 = Inr offset_int \<longrightarrow>
    int_param (if req_method request = GET then req_args request else req_form request)
      ''limit'' 20 = Inl e \<longrightarrow>
      list_handler be request s = (Inl e, s, [])) \<and>
   (list_handler be request s = (r, s', calls) \<longrightarrow>
      (\<forall>offset limit. EsScan offset limit \<in> set calls \<longrightarrow>
         0 \<le> offset \<and> 0 \<le> limit \<and>
         (\<exists>offset_int limit_int.
            int_param (if req_method request = GET then req_args request else req_form request)
              ''offset'' 0 = Inr offset_int \<and>
            int_param (if req_method request = GET then req_args request else req_form request)
              ''limit'' 20 = Inr limit_int \<and>
            offset = max offset_int 0 \<and> limit = max limit_int 0))) \<and>
   list_handler be (list_request m ''-5'' ''-1'') s = list_handler be (list_request m ''0'' ''0'') s \<and>
   list_handler be (list_request m ''-5'' ''-1'') s =
     bind_act (paths_at_location be 0 0)
       (\<lambda>paths. return_act (ok_response ''list'' (map PathItem paths))) s \<and>
   list_handler (reference_backend g d l srch ao) (list_request m ''-5'' ''-1'') idx =
     (Inr (ok_response ''list'' []), idx, [EsScan 0 0])"
proof (intro conjI impI)
  assume o: "int_param (if req_method request = GET then req_args request else req_form request)
      ''offset'' 0 = Inr offset_int"
    and l: "int_param (if req_method request = GET then req_args request else req_form request)
      ''limit'' 20 = Inr limit_int"
  show "list_handler be request s =
        bind_act (paths_at_location be (max offset_int 0) (max limit_int 0))
          (\<lambda>paths. return_act (ok_response ''list'' (map PathItem paths))) s"
    unfolding list_handler_eq Let_def o l bind_act_def paths_at_location_def return_act_def
    by (auto split: sum.splits)
  show "snd (snd (list_handler be request s)) = [EsScan (max offset_int 0) (max limit_int 0)]"
    unfolding list_handler_eq Let_def o l
    by (simp split: sum.splits)
  show "0 \<le> max offset_int 0" and "0 \<le> max limit_int 0"
    by simp_all
next
  assume "int_param (if req_method request = GET then req_args request else req_form request)
      ''offset'' 0 = Inl e"
  then show "list_handler be request s = (Inl e, s, [])"
    unfolding list_handler_eq Let_def by simp
next
  assume "int_param (if req_method request = GET then req_args request else req_form request)
      ''offset'' 0 = Inr offset_int"
    and "int_param (if req_method request = GET then req_args request else req_form request)
      ''limit'' 20 = Inl e"
  then show "list_handler be request s = (Inl e, s, [])"
    unfolding list_handler_eq Let_def by simp
next
  assume "list_handler be request s = (r, s', calls)"
  then show "\<forall>offset limit. EsScan offset limit \<in> set calls \<longrightarrow>
         0 \<le> offset \<and> 0 \<le> limit \<and>
         (\<exists>offset_int limit_int.
            int_param (if req_method request = GET then req_args request else req_form request)
              ''offset'' 0 = Inr offset_int \<and>
            int_param (if req_method request = GET then req_args request else req_form request)
              ''limit'' 20 = Inr limit_int \<and>
            offset = max offset_int 0 \<and> limit = max limit_int 0)"
    unfolding list_handler_eq Let_def
    by (auto split: sum.splits)
next
  show "list_handler be (list_request m ''-5'' ''-1'') s =
      list_handler be (list_request m ''0'' ''0'') s"
    by (simp only: list_handler_clamped_request list_handler_zero_request)
next
  show "list_handler be (list_request m ''-5'' ''-1'') s =
     bind_act (paths_at_location be 0 0)
       (\<lambda>paths. return_act (ok_response ''list'' (map PathItem paths))) s"
    unfolding list_handler_clamped_request bind_act_def paths_at_location_def return_act_def
    by (auto split: sum.splits)
next
  show "list_handler (reference_backend g d l srch ao) (list_request m ''-5'' ''-1'') idx =
     (Inr (ok_response ''list'' []), idx, [EsScan 0 0])"
    unfolding list_handler_clamped_request
    by (simp add: reference_backend_fields ref_scan_def)
qed

lemma example_plain_list_run:
  "list_handler example_backend plain_list_request example_index =
     (Inr (ok_response ''list'' [PathItem ''p.jpg'', PathItem ''p.jpg'', PathItem ''r.jpg'']),
      example_index, [EsScan 0 20])"
  unfolding list_handler_eq Let_def example_backend_def
  by (simp add: plain_list_request_def int_param_def reference_backend_fields ref_scan_def
      example_index_def example_doc_def)

lemma example_negative_offset_run:
  "list_handler example_backend (list_request POST ''-5'' ''2'') example_index =
     (Inr (ok_response ''list'' [PathItem ''p.jpg'', PathItem ''p.jpg'']),
      example_index, [EsScan 0 2])"
  unfolding list_handler_eq Let_def list_request_params py_int_minus_5 py_int_2 example_backend_def
  by (simp add: reference_backend_fields ref_scan_def example_index_def example_doc_def)

lemma example_bad_offset_run:
  "list_handler example_backend (list_request GET ''abc'' ''2'') example_index =
     (Inl ValueError, example_index, [])"
  unfolding list_handler_eq Let_def list_request_params py_int_not_a_number
  by simp

theorem list_handler_clamps_witness:
  "list_handler example_backend (list_request GET ''-5'' ''-1'') example_index =
     (Inr (ok_response ''list'' []), example_index, [EsScan 0 0]) \<and>
   list_handler example_backend (list_request GET ''0'' ''0'') example_index =
     (Inr (ok_response ''list'' []), example_index, [EsScan 0 0]) \<and>
   list_handler example_backend plain_list_request example_index =
     (Inr (ok_response ''list'' [PathItem ''p.jpg'', PathItem ''p.jpg'', PathItem ''r.jpg'']),
      example_index, [EsScan 0 20]) \<and>
   int_param (req_args plain_list_request) ''offset'' 0 = Inr 0 \<and>
   int_param (req_args plain_list_request) ''limit'' 20 = Inr 20 \<and>
   py_int ''-5'' = Inr (- 5) \<and> py_int ''2'' = Inr 2 \<and>
   list_handler example_backend (list_request POST ''-5'' ''2'') example_index =
     (Inr (ok_response ''list'' [PathItem ''p.jpg'', PathItem ''p.jpg'']),
      example_index, [EsScan 0 2]) \<and>
   py_int ''abc'' = Inl ValueError \<and>
   list_handler example_backend (list_request GET ''abc'' ''2'') example_index =
     (Inl ValueError, example_index, [])"
proof -
  note inst = list_handler_clamps
      [where be = example_backend and request = "list_request POST ''-5'' ''2''"
         and s = example_index and offset_int = "- 5" and limit_int = 2
         and m = GET and idx = example_index
         and g = example_generate and d = example_scalar_distance and l = example_loads
         and srch = example_search_image and ao = "''false''",
       folded example_backend_def]
  from inst have a: "list_handler example_backend (list_request GET ''-5'' ''-1'') example_index =
     (Inr (ok_response ''list'' []), example_index, [EsScan 0 0])"
    by blast
  from inst a have b: "list_handler example_backend (list_request GET ''0'' ''0'') example_index =
     (Inr (ok_response ''list'' []), example_index, [EsScan 0 0])"
    by metis
  have c: "int_param (req_args plain_list_request) ''offset'' 0 = Inr 0"
    and d: "int_param (req_args plain_list_request) ''limit'' 20 = Inr 20"
    by (simp_all add: plain_list_request_def int_param_def)
  have o: "int_param (if req_method (list_request POST ''-5'' ''2'') = GET
              then req_args (list_request POST ''-5'' ''2'')
              else req_form (list_request POST ''-5'' ''2'')) ''offset'' 0 = Inr (- 5)"
    and l: "int_param (if req_method (list_request POST ''-5'' ''2'') = GET
              then req_args (list_request POST ''-5'' ''2'')
              else req_form (list_request POST ''-5'' ''2'')) ''limit'' 20 = Inr 2"
    by (simp_all only: list_request_params py_int_minus_5 py_int_2)
  from inst o l
  have "snd (snd (list_handler example_backend (list_request POST ''-5'' ''2'') example_index)) =
      [EsScan (max (- 5) 0) (max 2 0)]"
    by blast
  then have e: "snd (snd (list_handler example_backend (list_request POST ''-5'' ''2'')
      example_index)) = [EsScan 0 2]"
    by simp
  show ?thesis
    using e
    by (simp only: a b c d example_plain_list_run example_negative_offset_run
        example_bad_offset_run py_int_minus_5 py_int_2 py_int_not_a_number simp_thms)
qed

end
